theory Spec2Isabelle
  imports Complex_Main
begin

section \<open>Time\<close>

text \<open>
  A Python \<^verbatim>\<open>datetime\<close> is modelled by the number of microseconds that separate it from
  0001-01-01T00:00 (proleptic Gregorian ordinal 1, a Monday) on the wall clock of the
  configured time zone; a \<^verbatim>\<open>timedelta\<close> is a number of microseconds. The time zone is
  taken with a constant UTC offset, so that \<^verbatim>\<open>astimezone\<close> is the identity and comparing
  two datetimes compares these numbers. A datetime read from a string that is written with
  another UTC offset denotes such a number as well, the same instant on the configured wall
  clock; where the code looks at the date or the time of day of such a datetime, or replaces
  them, the model keeps its offset beside the instant (\<open>aware\<close> below).
\<close>

type_synonym datetime = int
type_synonym timedelta = int

definition usec_per_minute :: int where
  "usec_per_minute = 60000000"

definition usec_per_hour :: int where
  "usec_per_hour = 3600000000"

definition usec_per_day :: int where
  "usec_per_day = 86400000000"

definition timedelta_minutes :: "int \<Rightarrow> timedelta" where
  "timedelta_minutes m = m * usec_per_minute"

definition timedelta_days :: "int \<Rightarrow> timedelta" where
  "timedelta_days d = d * usec_per_day"

text \<open>\<^verbatim>\<open>datetime(...)\<close> from a day number, hour and minute: used to write concrete inputs.\<close>

definition at_day :: "int \<Rightarrow> int \<Rightarrow> int \<Rightarrow> datetime" where
  "at_day d h m = d * usec_per_day + h * usec_per_hour + m * usec_per_minute"

text \<open>\<^verbatim>\<open>dt.date()\<close>, \<^verbatim>\<open>dt.hour\<close>, \<^verbatim>\<open>dt.minute\<close> and \<^verbatim>\<open>dt.weekday()\<close> (Monday is 0).\<close>

definition date_of :: "datetime \<Rightarrow> int" where
  "date_of dt = dt div usec_per_day"

definition hour_of :: "datetime \<Rightarrow> int" where
  "hour_of dt = (dt mod usec_per_day) div usec_per_hour"

definition minute_of :: "datetime \<Rightarrow> int" where
  "minute_of dt = ((dt mod usec_per_day) mod usec_per_hour) div usec_per_minute"

definition weekday :: "datetime \<Rightarrow> int" where
  "weekday dt = date_of dt mod 7"

section \<open>Errors\<close>

text \<open>
  The exceptions the modelled code raises. The messages of the source are Ukrainian
  sentences; each is named here by what it says.
\<close>

datatype message =
    hour_must_be_in_0_23
  | invalid_isoformat_string
  | deadline_passed
  | no_blocks_to_create
  | calendar_fetch_failed
  | user_not_found

datatype conflict_info = ConflictInfo
  (conflict_summary: string) (conflict_time: "datetime \<times> datetime") (conflict_event_id: string)

datatype error =
    ValueError message
  | RuntimeError message
  | ZeroDivisionError
  | OverflowError
  | IndexError
  | UpdateConflictDetected conflict_info
  | BackendError

text \<open>
  \<^verbatim>\<open>dt.replace(hour=h, minute=0, second=0, microsecond=0)\<close>: Python raises
  \<^verbatim>\<open>ValueError("hour must be in 0..23")\<close> for any other hour.
\<close>

definition replace_hour :: "datetime \<Rightarrow> int \<Rightarrow> error + datetime" where
  "replace_hour dt h =
     (if 0 \<le> h \<and> h \<le> 23 then Inr (dt - dt mod usec_per_day + h * usec_per_hour)
      else Inl (ValueError hour_must_be_in_0_23))"

section \<open>Calendar events and the calendar backend\<close>

text \<open>
  A field of a \<^verbatim>\<open>start\<close>/\<^verbatim>\<open>end\<close> payload holds a string. \<open>IsoAt t d\<close> is a string that
  \<^verbatim>\<open>datetime.fromisoformat\<close> reads: it denotes the instant \<open>t\<close>, and it is written with a
  UTC offset that is \<open>d\<close> microseconds ahead of the offset of the configured zone, so that
  the date and the time of day that the string shows are those of \<open>t + d\<close>. \<open>Iso t\<close> is such
  a string written with the offset of the configured zone, or with none. \<open>Garbage\<close> is a
  non-empty string that \<^verbatim>\<open>datetime.fromisoformat\<close> rejects. A missing key, \<^verbatim>\<open>None\<close> and
  the empty string are all \<open>None\<close>: the code only ever tests these fields for truth.
\<close>

datatype iso_string = IsoAt datetime int | Garbage

abbreviation Iso :: "datetime \<Rightarrow> iso_string" where
  "Iso t \<equiv> IsoAt t 0"

text \<open>
  An aware \<^verbatim>\<open>datetime\<close> with the UTC offset it carries: \<open>instant\<close> is the number that
  comparisons and differences look at, and \<open>ahead\<close> the microseconds by which its own clock
  is ahead of the configured wall clock. \<^verbatim>\<open>x.date()\<close>, \<^verbatim>\<open>x.hour\<close>, \<^verbatim>\<open>x.minute\<close> and
  \<^verbatim>\<open>x.replace(...)\<close> read and write its own clock, \<^verbatim>\<open>x + timedelta\<close> keeps the offset, and
  \<^verbatim>\<open>x.isoformat()\<close> writes the instant with the offset.
\<close>

record aware =
  instant :: datetime
  ahead :: int

definition own_clock :: "aware \<Rightarrow> datetime" where
  "own_clock x = instant x + ahead x"

definition in_zone :: "datetime \<Rightarrow> aware" where
  "in_zone t = \<lparr>instant = t, ahead = 0\<rparr>"

definition add_timedelta :: "aware \<Rightarrow> timedelta \<Rightarrow> aware" where
  "add_timedelta x td = x\<lparr>instant := instant x + td\<rparr>"

definition isoformat :: "aware \<Rightarrow> iso_string" where
  "isoformat x = IsoAt (instant x) (ahead x)"

record time_payload =
  dateTime :: "iso_string option"
  date :: "iso_string option"

record CalendarEvent =
  event_id :: string
  summary :: string
  event_start :: time_payload
  event_end :: time_payload
  description :: "string option"
  location :: "string option"
  html_link :: "string option"
  hangout_link :: "string option"
  color_id :: "string option"
  status :: "string option"

text \<open>
  The calendar backend and the relational store are external. Every call made to them is
  written to a trace, and their answer is an arbitrary function of the calls made so far and
  of the call itself: \<open>Raises\<close> is an exception at the call site.
\<close>

record event_kwargs =
  kw_summary :: "string option"
  kw_start :: "time_payload option"
  kw_end :: "time_payload option"
  kw_description :: "string option"
  kw_location :: "string option"
  kw_conference_data :: bool
  kw_remove_conference :: bool
  kw_color_id :: "string option"
  kw_reminders :: "int list option"
  kw_clear_reminders :: bool

datatype api_call =
    ListEventsBetween int datetime datetime nat
  | GetEvent int string
  | CreateEvent int event_kwargs
  | UpdateEvent int string event_kwargs
  | DeleteEvent int string
  | GetUserByTelegramId int
  | CreatePlan int string datetime int int "int option" "int option" bool "string option"
  | AddBlock int int string datetime datetime string
  | SessionCommit
  | SessionRollback

datatype response =
    Raises
  | Events "CalendarEvent list"
  | Event CalendarEvent
  | UserId "int option"
  | PlanId int
  | Done

type_synonym backend = "api_call list \<Rightarrow> api_call \<Rightarrow> response"

definition call :: "backend \<Rightarrow> api_call \<Rightarrow> api_call list \<Rightarrow> response \<times> api_call list" where
  "call be c trace = (be trace c, trace @ [c])"

section \<open>Free slot search (services/free\_slots.py)\<close>

record FreeSlotRequest =
  telegram_id :: int
  duration_minutes :: int
  date_from :: datetime
  date_to :: datetime
  preferred_start :: "int option"
  preferred_end :: "int option"

record FreeSlot =
  slot_start :: datetime
  slot_end :: datetime

text \<open>\<^verbatim>\<open>FreeSlotService._is_free\<close>\<close>

fun is_free :: "datetime \<Rightarrow> datetime \<Rightarrow> (datetime \<times> datetime) list \<Rightarrow> bool" where
  "is_free candidate_start candidate_end [] = True"
| "is_free candidate_start candidate_end ((b_start, b_end) # busy) =
     (if candidate_start < b_end \<and> candidate_end > b_start then False
      else is_free candidate_start candidate_end busy)"

text \<open>
  The loop of \<^verbatim>\<open>FreeSlotService._fetch_busy_intervals\<close> over the fetched events: an event
  without a \<^verbatim>\<open>dateTime\<close> on both sides is skipped, and \<^verbatim>\<open>datetime.fromisoformat\<close>
  raises on a string it cannot read.
\<close>

fun busy_of_events :: "CalendarEvent list \<Rightarrow> error + (datetime \<times> datetime) list" where
  "busy_of_events [] = Inr []"
| "busy_of_events (event # events) =
     (case (dateTime (event_start event), dateTime (event_end event)) of
        (Some start_str, Some end_str) \<Rightarrow>
          (case (start_str, end_str) of
             (IsoAt s ds, IsoAt e de) \<Rightarrow>
               (case busy_of_events events of
                  Inl err \<Rightarrow> Inl err
                | Inr busy \<Rightarrow> Inr ((s, e) # busy))
           | _ \<Rightarrow> Inl (ValueError invalid_isoformat_string))
      | _ \<Rightarrow> busy_of_events events)"

definition fetch_busy_intervals ::
  "backend \<Rightarrow> int \<Rightarrow> datetime \<Rightarrow> datetime \<Rightarrow> api_call list
     \<Rightarrow> (error + (datetime \<times> datetime) list) \<times> api_call list" where
  "fetch_busy_intervals be tid start_dt end_dt trace =
     (case call be (ListEventsBetween tid start_dt end_dt 250) trace of
        (Events events, trace') \<Rightarrow> (busy_of_events events, trace')
      | (_, trace') \<Rightarrow> (Inl (RuntimeError calendar_fetch_failed), trace'))"

text \<open>
  The inner loop of \<^verbatim>\<open>FreeSlotService.find_slots\<close>: candidates every 30 minutes, the
  first free one is the slot of the day.
\<close>

function scan_day ::
  "timedelta \<Rightarrow> datetime \<Rightarrow> datetime \<Rightarrow> (datetime \<times> datetime) list \<Rightarrow> datetime
     \<Rightarrow> FreeSlot option" where
  "scan_day duration day_end end_bound busy candidate_start =
     (if candidate_start + duration \<le> day_end then
        (let candidate_end = candidate_start + duration in
         if candidate_end > end_bound then None
         else if is_free candidate_start candidate_end busy
           then Some \<lparr>slot_start = candidate_start, slot_end = candidate_end\<rparr>
         else scan_day duration day_end end_bound busy
                (candidate_start + timedelta_minutes 30))
      else None)"
  by pat_completeness auto
termination
  by (relation "measure (\<lambda>(duration, day_end, end_bound, busy, candidate_start).
          nat (day_end - duration - candidate_start + 1))")
     (auto simp: timedelta_minutes_def usec_per_minute_def)

declare scan_day.simps [simp del]

text \<open>The outer loop of \<^verbatim>\<open>FreeSlotService.find_slots\<close>: one pass per day.\<close>

function find_slots_loop ::
  "FreeSlotRequest \<Rightarrow> int \<Rightarrow> (datetime \<times> datetime) list \<Rightarrow> datetime \<Rightarrow> datetime
     \<Rightarrow> datetime \<Rightarrow> FreeSlot list \<Rightarrow> error + FreeSlot list" where
  "find_slots_loop request max_suggestions busy start_bound end_bound cursor slots =
     (if cursor < end_bound \<and> int (length slots) < max_suggestions then
        (let day_start_hour = (case preferred_start request of Some h \<Rightarrow> h | None \<Rightarrow> 8);
             day_end_hour = (case preferred_end request of Some h \<Rightarrow> h | None \<Rightarrow> 20)
         in case replace_hour cursor day_start_hour of
              Inl err \<Rightarrow> Inl err
            | Inr day_start0 \<Rightarrow>
         (case replace_hour cursor day_end_hour of
              Inl err \<Rightarrow> Inl err
            | Inr day_end0 \<Rightarrow>
         (let day_start = (if day_start0 < start_bound then start_bound else day_start0);
              day_end = (if day_end0 > end_bound then end_bound else day_end0);
              candidate_start = max cursor day_start;
              slots' = (case scan_day (timedelta_minutes (duration_minutes request))
                               day_end end_bound busy candidate_start of
                          Some slot \<Rightarrow> slots @ [slot]
                        | None \<Rightarrow> slots)
          in case replace_hour (cursor + timedelta_days 1) day_start_hour of
               Inl err \<Rightarrow> Inl err
             | Inr next_day \<Rightarrow>
                 find_slots_loop request max_suggestions busy start_bound end_bound
                   (max next_day start_bound) slots')))
      else Inr slots)"
  by pat_completeness auto
termination
proof (relation "measure (\<lambda>(request, max_suggestions, busy, start_bound, end_bound, cursor, slots).
          nat (end_bound - cursor))", goal_cases)
  case 1
  show ?case by simp
next
  case (2 request max_suggestions busy start_bound end_bound cursor slots
          day_start_hour day_end_hour day_start0 day_end0 day_start day_end candidate_start
          slots' next_day)
  from 2(4) have "0 \<le> day_start_hour"
    by (auto simp: replace_hour_def split: if_splits)
  moreover from 2(10) have "next_day = cursor + usec_per_day - (cursor + usec_per_day) mod usec_per_day
      + day_start_hour * usec_per_hour"
    by (auto simp: replace_hour_def timedelta_days_def split: if_splits)
  moreover have "(cursor + usec_per_day) mod usec_per_day = cursor mod usec_per_day"
    by simp
  moreover have "cursor mod usec_per_day < usec_per_day"
    by (simp add: usec_per_day_def)
  ultimately have "cursor < next_day"
    by (simp add: usec_per_hour_def)
  with 2(1) show ?case by simp
qed

declare find_slots_loop.simps [simp del]

definition find_slots ::
  "backend \<Rightarrow> FreeSlotRequest \<Rightarrow> int \<Rightarrow> api_call list \<Rightarrow> (error + FreeSlot list) \<times> api_call list" where
  "find_slots be request max_suggestions trace =
     (case fetch_busy_intervals be (telegram_id request) (date_from request) (date_to request) trace of
        (Inl err, trace') \<Rightarrow> (Inl err, trace')
      | (Inr busy, trace') \<Rightarrow>
          (let start_bound = date_from request;
               end_bound = date_to request
           in (find_slots_loop request max_suggestions busy start_bound end_bound start_bound [],
               trace')))"

text \<open>
  What one pass of the outer loop leaves in \<^verbatim>\<open>slots\<close>, and the invariant of that loop:
  both are only used to state and prove the properties below.
\<close>

definition day_slots :: "FreeSlotRequest \<Rightarrow> (datetime \<times> datetime) list \<Rightarrow> datetime \<Rightarrow> datetime
    \<Rightarrow> datetime \<Rightarrow> datetime \<Rightarrow> datetime \<Rightarrow> FreeSlot list \<Rightarrow> FreeSlot list" where
  "day_slots request busy start_bound end_bound cursor day_start0 day_end0 slots =
     (case scan_day (timedelta_minutes (duration_minutes request))
               (if day_end0 > end_bound then end_bound else day_end0) end_bound busy
               (max cursor (if day_start0 < start_bound then start_bound else day_start0)) of
          Some slot \<Rightarrow> slots @ [slot] | None \<Rightarrow> slots)"

definition loop_inv :: "FreeSlotRequest \<Rightarrow> int \<Rightarrow> (datetime \<times> datetime) list \<Rightarrow> datetime
    \<Rightarrow> FreeSlot list \<Rightarrow> bool" where
  "loop_inv request max_suggestions busy cursor slots \<longleftrightarrow>
     (\<forall>s \<in> set slots. slot_end s - slot_start s = timedelta_minutes (duration_minutes request)
         \<and> is_free (slot_start s) (slot_end s) busy)
     \<and> (0 \<le> duration_minutes request \<longrightarrow>
          sorted_wrt (\<lambda>a b. slot_start a < slot_start b) slots
          \<and> (\<forall>s \<in> set slots. slot_start s < cursor))
     \<and> (0 \<le> max_suggestions \<longrightarrow> int (length slots) \<le> max_suggestions)"

text \<open>
  A concrete search: one event from 10:00 to 11:00 on day 739000, a request for 30 minutes
  between 9 and 12 o'clock over two days.
\<close>

definition busy_event :: "string \<Rightarrow> string \<Rightarrow> datetime \<Rightarrow> datetime \<Rightarrow> CalendarEvent" where
  "busy_event i s t1 t2 =
     \<lparr>event_id = i, summary = s,
      event_start = \<lparr>dateTime = Some (Iso t1), date = None\<rparr>,
      event_end = \<lparr>dateTime = Some (Iso t2), date = None\<rparr>,
      description = None, location = None, html_link = None, hangout_link = None,
      color_id = None, status = Some ''confirmed''\<rparr>"

definition example_backend :: backend where
  "example_backend trace c =
     (case c of
        ListEventsBetween tid t1 t2 n \<Rightarrow>
          Events [busy_event ''ev1'' ''review'' (at_day 739000 10 0) (at_day 739000 11 0)]
      | _ \<Rightarrow> Raises)"

definition example_request :: FreeSlotRequest where
  "example_request =
     \<lparr>telegram_id = 7, duration_minutes = 30,
      date_from = at_day 739000 0 0, date_to = at_day 739002 0 0,
      preferred_start = Some 9, preferred_end = Some 12\<rparr>"

section \<open>Conflict detection (bot/events.py)\<close>

text \<open>
  \<^verbatim>\<open>_parse_google_datetime\<close>: the value is \<^verbatim>\<open>payload.get("dateTime") or
  payload.get("date")\<close>; a string that cannot be read, also with \<^verbatim>\<open>T00:00:00\<close>
  appended, gives \<^verbatim>\<open>None\<close>.
\<close>

definition parse_google_datetime :: "time_payload \<Rightarrow> datetime option" where
  "parse_google_datetime payload =
     (case (case dateTime payload of Some v \<Rightarrow> Some v | None \<Rightarrow> date payload) of
        None \<Rightarrow> None
      | Some (IsoAt dt d) \<Rightarrow> Some dt
      | Some Garbage \<Rightarrow> None)"

text \<open>
  The same function with the UTC offset of the string kept. A string without an offset is
  given the configured zone (\<^verbatim>\<open>dt.replace(tzinfo=tz)\<close>); a string with one keeps it.
\<close>

definition parse_google_aware :: "time_payload \<Rightarrow> aware option" where
  "parse_google_aware payload =
     (case (case dateTime payload of Some v \<Rightarrow> Some v | None \<Rightarrow> date payload) of
        None \<Rightarrow> None
      | Some (IsoAt dt d) \<Rightarrow> Some \<lparr>instant = dt, ahead = d\<rparr>
      | Some Garbage \<Rightarrow> None)"

text \<open>
  The loop of \<^verbatim>\<open>_detect_conflict\<close> over the fetched events. The test
  \<^verbatim>\<open>exclude_event_id and item.id == exclude_event_id\<close> takes an empty
  \<^verbatim>\<open>exclude_event_id\<close> for no exclusion at all. The \<^verbatim>\<open>time\<close> text of the answer is
  represented by the two datetimes it prints.
\<close>

fun first_conflict ::
  "datetime \<Rightarrow> datetime \<Rightarrow> string option \<Rightarrow> CalendarEvent list \<Rightarrow> conflict_info option" where
  "first_conflict start_dt end_dt exclude_event_id [] = None"
| "first_conflict start_dt end_dt exclude_event_id (item # events) =
     (if status item = Some ''cancelled''
        then first_conflict start_dt end_dt exclude_event_id events
      else if (case exclude_event_id of
                 Some e \<Rightarrow> e \<noteq> [] \<and> event_id item = e
               | None \<Rightarrow> False)
        then first_conflict start_dt end_dt exclude_event_id events
      else (case (parse_google_datetime (event_start item),
                  parse_google_datetime (event_end item)) of
              (Some existing_start, Some existing_end) \<Rightarrow>
                (if start_dt < existing_end \<and> end_dt > existing_start
                   then Some (ConflictInfo (summary item) (existing_start, existing_end)
                                (event_id item))
                 else first_conflict start_dt end_dt exclude_event_id events)
            | _ \<Rightarrow> first_conflict start_dt end_dt exclude_event_id events))"

definition detect_conflict ::
  "backend \<Rightarrow> int \<Rightarrow> datetime \<Rightarrow> datetime \<Rightarrow> string option \<Rightarrow> api_call list
     \<Rightarrow> (error + conflict_info option) \<times> api_call list" where
  "detect_conflict be tid start_dt end_dt exclude_event_id trace =
     (let window_start = start_dt - timedelta_minutes 1;
          window_end = end_dt + timedelta_minutes 1
      in case call be (ListEventsBetween tid window_start window_end 20) trace of
           (Events events, trace') \<Rightarrow>
             (Inr (first_conflict start_dt end_dt exclude_event_id events), trace')
         | (_, trace') \<Rightarrow> (Inl BackendError, trace'))"

text \<open>
  The words of the specification: an event blocks the candidate \<open>[start_dt, end_dt)\<close>
  when it is not cancelled, is not the excluded event and has an interval that strictly
  overlaps the candidate; the answer describes the blocking event.
\<close>

definition interval_of :: "CalendarEvent \<Rightarrow> (datetime \<times> datetime) option" where
  "interval_of item =
     (case (parse_google_datetime (event_start item), parse_google_datetime (event_end item)) of
        (Some s, Some e) \<Rightarrow> Some (s, e)
      | _ \<Rightarrow> None)"

definition spec_blocking :: "datetime \<Rightarrow> datetime \<Rightarrow> string option \<Rightarrow> CalendarEvent \<Rightarrow> bool" where
  "spec_blocking start_dt end_dt exclude_event_id item \<longleftrightarrow>
     status item \<noteq> Some ''cancelled''
     \<and> exclude_event_id \<noteq> Some (event_id item)
     \<and> (case interval_of item of
          Some (other_start, other_end) \<Rightarrow> start_dt < other_end \<and> end_dt > other_start
        | None \<Rightarrow> False)"

definition spec_description :: "CalendarEvent \<Rightarrow> conflict_info" where
  "spec_description item =
     ConflictInfo (summary item) (the (interval_of item)) (event_id item)"

definition spec_detect :: "datetime \<Rightarrow> datetime \<Rightarrow> string option \<Rightarrow> CalendarEvent list
    \<Rightarrow> conflict_info option" where
  "spec_detect start_dt end_dt exclude_event_id events =
     map_option spec_description (find (spec_blocking start_dt end_dt exclude_event_id) events)"

definition conflict_backend :: backend where
  "conflict_backend trace c =
     (case c of
        ListEventsBetween tid t1 t2 n \<Rightarrow>
          Events [busy_event ''ev0'' ''lunch'' (at_day 739000 9 0) (at_day 739000 10 0),
                  busy_event ''ev1'' ''review'' (at_day 739000 10 15) (at_day 739000 10 45),
                  busy_event ''ev2'' ''sync'' (at_day 739000 10 20) (at_day 739000 10 40)]
      | _ \<Rightarrow> Raises)"

section \<open>Series planner (services/series\_planner.py)\<close>

record SeriesPlanRequest =
  sp_telegram_id :: int
  title :: string
  deadline :: datetime
  total_minutes :: int
  block_minutes :: int
  preferred_start_hour :: "int option"
  preferred_end_hour :: "int option"
  allow_weekends :: bool
  sp_description :: "string option"

text \<open>The label of a block is the text "block n"; it is represented by the number n.\<close>

record SeriesPlanBlock =
  block_index :: int
  block_label :: int
  block_start :: datetime
  block_end :: datetime

text \<open>The one warning of the planner: only \<open>found\<close> of \<open>needed\<close> blocks were found.\<close>

datatype warning = FoundOnly int int

record SeriesPlanPreview =
  preview_request :: SeriesPlanRequest
  blocks :: "SeriesPlanBlock list"
  missing_blocks :: int
  warnings :: "warning list"

record SeriesCommitResult =
  plan_id :: int
  created_blocks :: "SeriesPlanBlock list"
  event_links :: "string list"
  deadline_event_link :: "string option"

text \<open>
  \<^verbatim>\<open>a / b\<close> on two Python ints is a binary64 float: the exact quotient rounded to the
  nearest number \<open>m * 2^s\<close> with \<open>m\<close> of at most 53 bits and \<open>s\<close> at least \<open>-1074\<close>, a tie
  going to the even \<open>m\<close>. The division raises \<^verbatim>\<open>ZeroDivisionError\<close> for \<open>b = 0\<close> and
  \<^verbatim>\<open>OverflowError\<close> when the rounded quotient reaches \<open>2^1024\<close>; a quotient too small for
  the smallest float gives zero. The float is represented by the pair \<open>(m, s)\<close>, with the
  sign on \<open>m\<close>.
\<close>

text \<open>\<^verbatim>\<open>int.bit_length\<close> of a number that is not negative.\<close>

function bit_length :: "int \<Rightarrow> nat" where
  "bit_length n = (if n \<le> 0 then 0 else Suc (bit_length (n div 2)))"
  by pat_completeness auto
termination
  by (relation "measure nat") auto

declare bit_length.simps [simp del]

text \<open>The exponent \<open>e\<close> of a quotient of two positive numbers: \<open>2^e \<le> a / b < 2^(e + 1)\<close>.\<close>

definition quotient_exponent :: "int \<Rightarrow> int \<Rightarrow> int" where
  "quotient_exponent a b =
     (let k = int (bit_length a) - int (bit_length b)
      in if b * 2 ^ nat k \<le> a * 2 ^ nat (- k) then k else k - 1)"

text \<open>The quotient \<open>n / d\<close>, for a positive \<open>d\<close>, rounded to the nearest integer, a tie to the even one.\<close>

definition round_half_even :: "int \<Rightarrow> int \<Rightarrow> int" where
  "round_half_even n d =
     (let q = n div d; r = n mod d
      in if 2 * r < d then q
         else if d < 2 * r then q + 1
         else if even q then q else q + 1)"

definition py_true_div :: "int \<Rightarrow> int \<Rightarrow> error + int \<times> int" where
  "py_true_div a b =
     (if b = 0 then Inl ZeroDivisionError
      else if a = 0 then Inr (0, 0)
      else (let e = quotient_exponent \<bar>a\<bar> \<bar>b\<bar>;
                s = max (e - 52) (- 1074);
                m = round_half_even (\<bar>a\<bar> * 2 ^ nat (- s)) (\<bar>b\<bar> * 2 ^ nat s)
            in if 2 ^ 1024 * 2 ^ nat (- s) \<le> m * 2 ^ nat s then Inl OverflowError
               else Inr (sgn a * sgn b * m, s)))"

text \<open>\<^verbatim>\<open>math.ceil\<close> of a float, which is an int.\<close>

definition math_ceil :: "int \<times> int \<Rightarrow> int" where
  "math_ceil x =
     (case x of (m, s) \<Rightarrow> if 0 \<le> s then m * 2 ^ nat s else - ((- m) div 2 ^ nat (- s)))"

text \<open>\<^verbatim>\<open>math.ceil(a / b)\<close>\<close>

definition py_ceil_div :: "int \<Rightarrow> int \<Rightarrow> error + int" where
  "py_ceil_div a b =
     (case py_true_div a b of Inl err \<Rightarrow> Inl err | Inr x \<Rightarrow> Inr (math_ceil x))"

text \<open>\<^verbatim>\<open>SeriesPlannerService._filter_slots\<close>\<close>

fun filter_slots_loop ::
  "FreeSlot list \<Rightarrow> bool \<Rightarrow> datetime \<Rightarrow> int \<Rightarrow> FreeSlot list \<Rightarrow> FreeSlot list" where
  "filter_slots_loop [] allow deadline_dt limit filtered = filtered"
| "filter_slots_loop (slot # slots) allow deadline_dt limit filtered =
     (if slot_end slot > deadline_dt
        then filter_slots_loop slots allow deadline_dt limit filtered
      else if \<not> allow \<and> weekday (slot_start slot) \<ge> 5
        then filter_slots_loop slots allow deadline_dt limit filtered
      else (let filtered' = filtered @ [slot]
            in if int (length filtered') \<ge> limit then filtered'
               else filter_slots_loop slots allow deadline_dt limit filtered'))"

definition filter_slots :: "FreeSlot list \<Rightarrow> bool \<Rightarrow> datetime \<Rightarrow> int \<Rightarrow> FreeSlot list" where
  "filter_slots slots allow deadline_dt limit = filter_slots_loop slots allow deadline_dt limit []"

text \<open>The comprehension over \<^verbatim>\<open>enumerate(filtered_slots[:blocks_needed])\<close>.\<close>

definition make_blocks :: "FreeSlot list \<Rightarrow> SeriesPlanBlock list" where
  "make_blocks slots =
     map (\<lambda>(idx, slot). \<lparr>block_index = int idx, block_label = int idx + 1,
                          block_start = slot_start slot, block_end = slot_end slot\<rparr>)
         (enumerate 0 slots)"

text \<open>\<^verbatim>\<open>SeriesPlannerService.plan_series\<close>; \<open>now\<close> is what \<^verbatim>\<open>datetime.now(tz)\<close> returns.\<close>

definition plan_series ::
  "backend \<Rightarrow> datetime \<Rightarrow> SeriesPlanRequest \<Rightarrow> api_call list
     \<Rightarrow> (error + SeriesPlanPreview) \<times> api_call list" where
  "plan_series be now request trace =
     (if deadline request \<le> now then (Inl (ValueError deadline_passed), trace)
      else case py_ceil_div (total_minutes request) (block_minutes request) of
        Inl err \<Rightarrow> (Inl err, trace)
      | Inr c \<Rightarrow>
        (let blocks_needed = max 1 c;
             fs_request = \<lparr>telegram_id = sp_telegram_id request,
                           duration_minutes = block_minutes request,
                           date_from = now, date_to = deadline request,
                           preferred_start = preferred_start_hour request,
                           preferred_end = preferred_end_hour request\<rparr>
         in case find_slots be fs_request (max (blocks_needed * 3) 6) trace of
              (Inl err, trace') \<Rightarrow> (Inl err, trace')
            | (Inr slots, trace') \<Rightarrow>
              (let filtered_slots = filter_slots slots (allow_weekends request)
                                      (deadline request) blocks_needed;
                   missing = max 0 (blocks_needed - int (length filtered_slots));
                   warnings = (if missing \<noteq> 0
                                 then [FoundOnly (blocks_needed - missing) blocks_needed]
                               else []);
                   blocks = make_blocks (take (nat blocks_needed) filtered_slots)
               in (Inr \<lparr>preview_request = request, blocks = blocks,
                         missing_blocks = missing, warnings = warnings\<rparr>, trace'))))"

text \<open>Decimal digits of a number, for the texts that carry a block number.\<close>

fun show_nat :: "nat \<Rightarrow> string" where
  "show_nat n =
     (if n < 10 then [char_of (48 + n)]
      else show_nat (n div 10) @ [char_of (48 + n mod 10)])"

declare show_nat.simps [simp del]

definition no_kwargs :: event_kwargs where
  "no_kwargs =
     \<lparr>kw_summary = None, kw_start = None, kw_end = None, kw_description = None,
      kw_location = None, kw_conference_data = False, kw_remove_conference = False,
      kw_color_id = None, kw_reminders = None, kw_clear_reminders = False\<rparr>"

definition iso_payload :: "datetime \<Rightarrow> time_payload" where
  "iso_payload dt = \<lparr>dateTime = Some (Iso dt), date = None\<rparr>"

text \<open>
  The event of one block, as \<^verbatim>\<open>commit_plan\<close> builds it. The summary is the source's text
  with the word for "block" transliterated; of the description, which no decision of the
  code depends on, only the first line is kept.
\<close>

definition block_summary :: "SeriesPlanRequest \<Rightarrow> SeriesPlanBlock \<Rightarrow> string" where
  "block_summary request block =
     ''[Series] '' @ title request @ '': blok '' @ show_nat (nat (block_index block + 1))"

definition block_kwargs :: "SeriesPlanRequest \<Rightarrow> SeriesPlanBlock \<Rightarrow> event_kwargs" where
  "block_kwargs request block =
     no_kwargs\<lparr>kw_summary := Some (block_summary request block),
               kw_start := Some (iso_payload (block_start block)),
               kw_end := Some (iso_payload (block_end block)),
               kw_description := Some (''Series: '' @ title request)\<rparr>"

text \<open>The loop of \<^verbatim>\<open>commit_plan\<close> over \<^verbatim>\<open>preview.blocks\<close>.\<close>

fun create_blocks ::
  "backend \<Rightarrow> SeriesPlanRequest \<Rightarrow> int \<Rightarrow> SeriesPlanBlock list \<Rightarrow> SeriesPlanBlock list
     \<Rightarrow> string list \<Rightarrow> api_call list
     \<Rightarrow> (error + SeriesPlanBlock list \<times> string list) \<times> api_call list" where
  "create_blocks be request pid [] created links trace = (Inr (created, links), trace)"
| "create_blocks be request pid (block # rest) created links trace =
     (case call be (CreateEvent (sp_telegram_id request) (block_kwargs request block)) trace of
        (Event event, trace1) \<Rightarrow>
          (let links' = links @ [case html_link event of Some l \<Rightarrow> l | None \<Rightarrow> []]
           in case call be (AddBlock pid (block_index block) (block_summary request block)
                              (block_start block) (block_end block) (event_id event)) trace1 of
                (Raises, trace2) \<Rightarrow> (Inl BackendError, trace2)
              | (_, trace2) \<Rightarrow>
                  create_blocks be request pid rest (created @ [block]) links' trace2)
      | (_, trace1) \<Rightarrow> (Inl BackendError, trace1))"

text \<open>\<^verbatim>\<open>SeriesPlannerService._ensure_deadline_reminder\<close>: a failure is logged, not raised.\<close>

definition deadline_kwargs :: "SeriesPlanRequest \<Rightarrow> event_kwargs" where
  "deadline_kwargs request =
     no_kwargs\<lparr>kw_summary := Some (''[Series] Deadline: '' @ title request),
               kw_start := Some (iso_payload (deadline request)),
               kw_end := Some (iso_payload (deadline request + timedelta_minutes 30)),
               kw_description := Some (''Series: '' @ title request),
               kw_reminders := Some [30]\<rparr>"

definition ensure_deadline_reminder ::
  "backend \<Rightarrow> SeriesPlanRequest \<Rightarrow> api_call list \<Rightarrow> string option \<times> api_call list" where
  "ensure_deadline_reminder be request trace =
     (case call be (CreateEvent (sp_telegram_id request) (deadline_kwargs request)) trace of
        (Event event, trace') \<Rightarrow> (html_link event, trace')
      | (_, trace') \<Rightarrow> (None, trace'))"

text \<open>
  \<^verbatim>\<open>SeriesPlannerService.commit_plan\<close>. The body of \<^verbatim>\<open>with get_session()\<close> ends with a
  commit of the relational session, or with its rollback when an exception leaves it.
\<close>

definition commit_plan ::
  "backend \<Rightarrow> SeriesPlanPreview \<Rightarrow> api_call list
     \<Rightarrow> (error + SeriesCommitResult) \<times> api_call list" where
  "commit_plan be preview trace =
     (if blocks preview = [] then (Inl (ValueError no_blocks_to_create), trace)
      else
       (let request = preview_request preview
        in case call be (GetUserByTelegramId (sp_telegram_id request)) trace of
             (UserId (Some uid), trace1) \<Rightarrow>
               (case call be (CreatePlan uid (title request) (deadline request)
                                (total_minutes request) (block_minutes request)
                                (preferred_start_hour request) (preferred_end_hour request)
                                (allow_weekends request) (sp_description request)) trace1 of
                  (PlanId pid, trace2) \<Rightarrow>
                    (case create_blocks be request pid (blocks preview) [] [] trace2 of
                       (Inr (created, links), trace3) \<Rightarrow>
                         (case ensure_deadline_reminder be request trace3 of
                            (link, trace4) \<Rightarrow>
                              (case call be SessionCommit trace4 of
                                 (Raises, trace5) \<Rightarrow>
                                   (Inl BackendError, trace5 @ [SessionRollback])
                               | (_, trace5) \<Rightarrow>
                                   (Inr \<lparr>plan_id = pid, created_blocks = created,
                                         event_links = links,
                                         deadline_event_link = link\<rparr>, trace5)))
                     | (Inl err, trace3) \<Rightarrow> (Inl err, trace3 @ [SessionRollback]))
                | (_, trace2) \<Rightarrow> (Inl BackendError, trace2 @ [SessionRollback]))
           | (UserId None, trace1) \<Rightarrow>
               (Inl (RuntimeError user_not_found), trace1 @ [SessionRollback])
           | (_, trace1) \<Rightarrow> (Inl BackendError, trace1 @ [SessionRollback])))"

text \<open>A concrete plan request: 130 minutes in blocks of 60, to be done by day 739003 (a Sunday).\<close>

definition example_plan :: SeriesPlanRequest where
  "example_plan =
     \<lparr>sp_telegram_id = 7, title = ''exam'', deadline = at_day 739003 18 0,
      total_minutes = 130, block_minutes = 60,
      preferred_start_hour = Some 9, preferred_end_hour = Some 12,
      allow_weekends = False, sp_description = None\<rparr>"

text \<open>
  The words of the specification for the planner: the number of blocks is the ceiling of
  the quotient, and a candidate slot is kept when it ends at or before the deadline and,
  where weekends are not allowed, starts on a weekday.
\<close>

definition spec_blocks_needed :: "SeriesPlanRequest \<Rightarrow> int" where
  "spec_blocks_needed request =
     \<lceil>real_of_int (total_minutes request) / real_of_int (block_minutes request)\<rceil>"

definition spec_keeps :: "SeriesPlanRequest \<Rightarrow> FreeSlot \<Rightarrow> bool" where
  "spec_keeps request slot \<longleftrightarrow>
     slot_end slot \<le> deadline request
     \<and> (allow_weekends request \<or> weekday (slot_start slot) < 5)"

definition candidate_request :: "datetime \<Rightarrow> SeriesPlanRequest \<Rightarrow> FreeSlotRequest" where
  "candidate_request now request =
     \<lparr>telegram_id = sp_telegram_id request, duration_minutes = block_minutes request,
      date_from = now, date_to = deadline request,
      preferred_start = preferred_start_hour request,
      preferred_end = preferred_end_hour request\<rparr>"

section \<open>Event updates (bot/events.py)\<close>

text \<open>
  The patch dictionary \<^verbatim>\<open>update_data\<close>: a field is \<open>None\<close> when its key is absent. The
  strings under \<^verbatim>\<open>start\<close> and \<^verbatim>\<open>end\<close> are read with \<^verbatim>\<open>datetime.fromisoformat\<close>.
\<close>

record update_data =
  ud_start :: "iso_string option"
  ud_end :: "iso_string option"
  ud_shift_minutes :: "int option"
  ud_duration_minutes :: "int option"
  ud_title :: "string option"
  ud_description :: "string option"
  ud_location :: "string option"
  ud_category :: "string option"

record update_options =
  add_meet :: bool
  remove_meet :: bool
  opt_color_id :: "string option"
  opt_reminders :: "int list option"
  clear_reminders :: bool
  ignore_conflicts :: bool

text \<open>Python's truth of an optional number and of an optional string.\<close>

definition truthy_int :: "int option \<Rightarrow> bool" where
  "truthy_int v = (case v of None \<Rightarrow> False | Some n \<Rightarrow> n \<noteq> 0)"

definition truthy_str :: "string option \<Rightarrow> bool" where
  "truthy_str v = (case v of None \<Rightarrow> False | Some s \<Rightarrow> s \<noteq> [])"

text \<open>
  \<^verbatim>\<open>original_start.replace(hour=parsed_start.hour, minute=parsed_start.minute, second=0,
  microsecond=0)\<close>: the date is the one that \<^verbatim>\<open>original_start\<close> shows on its own clock,
  and its offset stays.
\<close>

definition replace_time :: "aware \<Rightarrow> aware \<Rightarrow> aware" where
  "replace_time original parsed =
     (let shown = own_clock original;
          replaced = shown - shown mod usec_per_day
                       + hour_of (own_clock parsed) * usec_per_hour
                       + minute_of (own_clock parsed) * usec_per_minute
      in \<lparr>instant = replaced - ahead original, ahead = ahead original\<rparr>)"

text \<open>
  The first part of \<^verbatim>\<open>_apply_event_update\<close>: the new start and end of the event, from
  the original ones and the patch. \<^verbatim>\<open>datetime.fromisoformat(s).replace(tzinfo=tz)\<close> takes
  the date and time of day that the string shows for a time in the configured zone;
  \<open>now\<close> is what \<^verbatim>\<open>datetime.now(tz)\<close> returns, read only where the patch has a start.
\<close>

definition new_interval ::
  "datetime \<Rightarrow> CalendarEvent \<Rightarrow> update_data \<Rightarrow> aware option \<times> aware option" where
  "new_interval now original_event upd =
     (let original_start = parse_google_aware (event_start original_event);
          original_end = parse_google_aware (event_end original_event);
          (new_start1, new_end1, has_absolute_time) =
            (case ud_start upd of
               None \<Rightarrow> (original_start, original_end, False)
             | Some Garbage \<Rightarrow> (original_start, original_end, False)
             | Some (IsoAt t d) \<Rightarrow>
                 (let parsed_start = in_zone (t + d);
                      new_start =
                        (case original_start of
                           Some os \<Rightarrow>
                             (if date_of (own_clock parsed_start) = date_of now
                                 \<and> date_of (own_clock os) \<noteq> date_of now
                                then replace_time os parsed_start
                              else parsed_start)
                         | None \<Rightarrow> parsed_start)
                  in (Some new_start,
                      (case (original_start, original_end) of
                         (Some os, Some oe) \<Rightarrow>
                           (if ud_end upd = None
                              then Some (add_timedelta new_start (instant oe - instant os))
                            else original_end)
                       | _ \<Rightarrow> original_end),
                      True)));
          new_end2 =
            (case ud_end upd of
               None \<Rightarrow> new_end1
             | Some (IsoAt t d) \<Rightarrow> Some (in_zone (t + d))
             | Some Garbage \<Rightarrow> original_end);
          (new_start3, new_end3) =
            (case (ud_shift_minutes upd, original_start, original_end) of
               (Some shift, Some os, Some oe) \<Rightarrow>
                 (if shift \<noteq> 0 \<and> \<not> has_absolute_time
                    then (Some (add_timedelta os (timedelta_minutes shift)),
                          Some (add_timedelta oe (timedelta_minutes shift)))
                  else (new_start1, new_end2))
             | _ \<Rightarrow> (new_start1, new_end2));
          new_end4 =
            (case (ud_duration_minutes upd, new_start3) of
               (Some d, Some ns) \<Rightarrow>
                 (if d \<noteq> 0 then Some (add_timedelta ns (timedelta_minutes d)) else new_end3)
             | _ \<Rightarrow> new_end3)
      in (new_start3, new_end4))"

text \<open>
  The payload \<^verbatim>\<open>{"dateTime": x.isoformat(), "timeZone": settings.timezone}\<close>; the name of
  the zone is the same in every payload and is left out.
\<close>

definition aware_payload :: "aware \<Rightarrow> time_payload" where
  "aware_payload x = \<lparr>dateTime = Some (isoformat x), date = None\<rparr>"

text \<open>The keyword arguments that \<^verbatim>\<open>_apply_event_update\<close> collects for the backend.\<close>

definition update_kwargs ::
  "aware option \<Rightarrow> aware option \<Rightarrow> update_data \<Rightarrow> update_options \<Rightarrow> event_kwargs" where
  "update_kwargs new_start new_end upd opts =
     \<lparr>kw_summary = ud_title upd,
      kw_start = map_option aware_payload new_start,
      kw_end = map_option aware_payload new_end,
      kw_description = ud_description upd,
      kw_location = ud_location upd,
      kw_conference_data = add_meet opts,
      kw_remove_conference = remove_meet opts,
      kw_color_id = (if truthy_str (opt_color_id opts) then opt_color_id opts else None),
      kw_reminders = opt_reminders opts,
      kw_clear_reminders = clear_reminders opts\<rparr>"

text \<open>The call of \<^verbatim>\<open>services.calendar.update_event\<close> that ends \<^verbatim>\<open>_apply_event_update\<close>.\<close>

definition update_event ::
  "backend \<Rightarrow> int \<Rightarrow> string \<Rightarrow> event_kwargs \<Rightarrow> api_call list
     \<Rightarrow> (error + CalendarEvent) \<times> api_call list" where
  "update_event be tid eid kwargs trace =
     (case call be (UpdateEvent tid eid kwargs) trace of
        (Event updated_event, trace') \<Rightarrow> (Inr updated_event, trace')
      | (_, trace') \<Rightarrow> (Inl BackendError, trace'))"

text \<open>
  The guard of the conflict check in \<^verbatim>\<open>_apply_event_update\<close>, as the source writes it:
  \<^verbatim>\<open>not ignore_conflicts and new_start and new_end and (not shift_minutes or
  shift_minutes != 0)\<close>.
\<close>

definition runs_conflict_check ::
  "aware option \<Rightarrow> aware option \<Rightarrow> update_data \<Rightarrow> update_options \<Rightarrow> bool" where
  "runs_conflict_check new_start new_end upd opts \<longleftrightarrow>
     \<not> ignore_conflicts opts \<and> new_start \<noteq> None \<and> new_end \<noteq> None
     \<and> (\<not> truthy_int (ud_shift_minutes upd) \<or> ud_shift_minutes upd \<noteq> Some 0)"

text \<open>\<^verbatim>\<open>_apply_event_update\<close>\<close>

definition apply_event_update ::
  "backend \<Rightarrow> datetime \<Rightarrow> int \<Rightarrow> string \<Rightarrow> CalendarEvent \<Rightarrow> update_data \<Rightarrow> update_options
     \<Rightarrow> api_call list \<Rightarrow> (error + CalendarEvent) \<times> api_call list" where
  "apply_event_update be now tid eid original_event upd opts trace =
     (case new_interval now original_event upd of
        (new_start, new_end) \<Rightarrow>
          (let kwargs = update_kwargs new_start new_end upd opts
           in if runs_conflict_check new_start new_end upd opts
                then (case detect_conflict be tid (instant (the new_start)) (instant (the new_end))
                             (Some eid) trace of
                        (Inl err, trace1) \<Rightarrow> (Inl err, trace1)
                      | (Inr (Some conflict), trace1) \<Rightarrow>
                          (Inl (UpdateConflictDetected conflict), trace1)
                      | (Inr None, trace1) \<Rightarrow> update_event be tid eid kwargs trace1)
              else update_event be tid eid kwargs trace))"

section \<open>Conversation state (bot/context.py)\<close>

record EventContext =
  ec_event_id :: "string option"
  ec_summary :: string

record EventUpdatePayload =
  patch :: update_data
  up_add_meet :: bool
  up_remove_meet :: bool
  up_color_id :: "string option"
  up_reminder_minutes :: "int option"

text \<open>An \<^verbatim>\<open>EventDraft\<close> is represented by the keyword arguments it is turned into.\<close>

record PendingCreateConflict =
  pcc_draft :: event_kwargs
  pcc_conflict :: conflict_info
  pcc_reply_text :: string

record PendingUpdateConflict =
  puc_event_id :: string
  puc_update :: EventUpdatePayload
  puc_original_event :: CalendarEvent
  puc_conflict :: "conflict_info option"

text \<open>
  The dates of a \<^verbatim>\<open>LastFreeSlotsRequest\<close> are ISO strings; \<open>None\<close> is the empty string or
  \<^verbatim>\<open>None\<close>, which \<^verbatim>\<open>_parse_iso_datetime\<close> and the tests for truth treat alike.
\<close>

record LastFreeSlotsRequest =
  lfs_duration :: int
  lfs_date_from :: "iso_string option"
  lfs_date_to :: "iso_string option"
  lfs_preferred_window :: "string option"
  lfs_preferred_start :: "int option"
  lfs_preferred_end :: "int option"
  lfs_next_start :: "iso_string option"
  lfs_cursor_history :: "iso_string option list"

record LastFreeSlotsContext =
  lfs_slots :: "FreeSlot list"
  lfs_request :: LastFreeSlotsRequest
  awaiting_use :: bool

record PendingDeleteItem =
  pd_event_id :: string
  pd_summary :: string
  pd_start :: string

record PendingUpdateListItem =
  pul_event_id :: string
  pul_summary :: string
  pul_start :: string
  pul_event_data :: CalendarEvent

record PendingUpdateListContext =
  pul_items :: "PendingUpdateListItem list"
  pul_update_data :: EventUpdatePayload

text \<open>
  \<^verbatim>\<open>context.user_data\<close>: one field for each key the modelled code reads or writes, \<open>None\<close>
  for a key that is absent. The values are the dataclasses that this code stores; the
  dictionary-shaped values of older versions, which the getters also accept, are never
  written by it and are left out.
\<close>

record user_data =
  last_event_context :: "EventContext option"
  last_event_query :: "string option"
  pending_conflict :: "PendingCreateConflict option"
  pending_update_conflict :: "PendingUpdateConflict option"
  last_free_slots :: "LastFreeSlotsContext option"
  pending_delete :: "PendingDeleteItem option"
  pending_delete_list :: "PendingDeleteItem list option"
  pending_update_list :: "PendingUpdateListContext option"
  pending_update_detail :: "string option"
  expecting_window_query :: bool

definition empty_user_data :: user_data where
  "empty_user_data =
     \<lparr>last_event_context = None, last_event_query = None, pending_conflict = None,
      pending_update_conflict = None, last_free_slots = None, pending_delete = None,
      pending_delete_list = None, pending_update_list = None, pending_update_detail = None,
      expecting_window_query = False\<rparr>"

text \<open>\<^verbatim>\<open>reset_user_context\<close> with nothing preserved.\<close>

definition reset_user_context :: "user_data \<Rightarrow> user_data" where
  "reset_user_context ud = empty_user_data"

definition set_last_event_context :: "user_data \<Rightarrow> string option \<Rightarrow> string option \<Rightarrow> user_data" where
  "set_last_event_context ud eid summ =
     (if \<not> (truthy_str eid \<or> truthy_str summ) then ud
      else ud\<lparr>last_event_context :=
                Some \<lparr>ec_event_id = eid,
                      ec_summary = (if truthy_str summ then the summ else ''(no title)'')\<rparr>\<rparr>)"

definition set_last_event_query :: "user_data \<Rightarrow> string option \<Rightarrow> user_data" where
  "set_last_event_query ud query =
     (if truthy_str query then ud\<lparr>last_event_query := query\<rparr>
      else ud\<lparr>last_event_query := None\<rparr>)"

definition set_pending_create_conflict ::
  "user_data \<Rightarrow> PendingCreateConflict option \<Rightarrow> user_data" where
  "set_pending_create_conflict ud conflict = ud\<lparr>pending_conflict := conflict\<rparr>"

definition pop_pending_create_conflict ::
  "user_data \<Rightarrow> PendingCreateConflict option \<times> user_data" where
  "pop_pending_create_conflict ud = (pending_conflict ud, ud\<lparr>pending_conflict := None\<rparr>)"

definition set_pending_update_conflict ::
  "user_data \<Rightarrow> PendingUpdateConflict option \<Rightarrow> user_data" where
  "set_pending_update_conflict ud conflict = ud\<lparr>pending_update_conflict := conflict\<rparr>"

definition pop_pending_update_conflict ::
  "user_data \<Rightarrow> PendingUpdateConflict option \<times> user_data" where
  "pop_pending_update_conflict ud =
     (pending_update_conflict ud, ud\<lparr>pending_update_conflict := None\<rparr>)"

definition set_last_free_slots :: "user_data \<Rightarrow> LastFreeSlotsContext option \<Rightarrow> user_data" where
  "set_last_free_slots ud state = ud\<lparr>last_free_slots := state\<rparr>"

definition get_last_free_slots :: "user_data \<Rightarrow> LastFreeSlotsContext option" where
  "get_last_free_slots ud = last_free_slots ud"

definition set_pending_delete :: "user_data \<Rightarrow> PendingDeleteItem option \<Rightarrow> user_data" where
  "set_pending_delete ud delete_context = ud\<lparr>pending_delete := delete_context\<rparr>"

definition get_pending_delete :: "user_data \<Rightarrow> PendingDeleteItem option" where
  "get_pending_delete ud = pending_delete ud"

definition pop_pending_delete :: "user_data \<Rightarrow> PendingDeleteItem option \<times> user_data" where
  "pop_pending_delete ud = (pending_delete ud, ud\<lparr>pending_delete := None\<rparr>)"

definition set_pending_delete_list :: "user_data \<Rightarrow> PendingDeleteItem list option \<Rightarrow> user_data" where
  "set_pending_delete_list ud items = ud\<lparr>pending_delete_list := items\<rparr>"

text \<open>\<^verbatim>\<open>get_pending_delete_list\<close>: an absent key and an empty list both give the empty list.\<close>

definition get_pending_delete_list :: "user_data \<Rightarrow> PendingDeleteItem list" where
  "get_pending_delete_list ud = (case pending_delete_list ud of None \<Rightarrow> [] | Some raw \<Rightarrow> raw)"

definition set_pending_update_list ::
  "user_data \<Rightarrow> PendingUpdateListContext option \<Rightarrow> user_data" where
  "set_pending_update_list ud list_context = ud\<lparr>pending_update_list := list_context\<rparr>"

definition get_pending_update_list :: "user_data \<Rightarrow> PendingUpdateListContext option" where
  "get_pending_update_list ud = pending_update_list ud"

definition pop_pending_update_list ::
  "user_data \<Rightarrow> PendingUpdateListContext option \<times> user_data" where
  "pop_pending_update_list ud =
     (get_pending_update_list ud, ud\<lparr>pending_update_list := None\<rparr>)"

definition pop_pending_update_detail :: "user_data \<Rightarrow> string option \<times> user_data" where
  "pop_pending_update_detail ud = (pending_update_detail ud, ud\<lparr>pending_update_detail := None\<rparr>)"

section \<open>Handlers (bot/events.py, bot/handlers.py)\<close>

text \<open>
  The texts sent to the user, each named by what it says, and the state of one
  conversation: the user data, the replies sent and the calls made to the backend.
\<close>

datatype reply =
    EventNotFound
  | EventUpdated string
  | UpdateConflictPrompt conflict_info
  | CreateConflictPrompt conflict_info
  | UpdateFailed
  | EventCreated
  | CreateFailed
  | DeleteInfoLost
  | EventDeleted string
  | DeleteFailed
  | SelectedEventNotFound
  | ConfirmDeletePrompt string string
  | DeleteCancelled
  | UpdatingEvent string
  | EditCancelled
  | CreatingEvent
  | Updating
  | ConflictDataNotFound
  | ActionCancelled
  | NoActiveConflict
  | NoMoreSlots
  | NoOtherVariants
  | NoEarlierSlots
  | AskForSearchFirst
  | SlotList "FreeSlot list"

record conversation =
  user :: user_data
  replies :: "reply list"
  calls :: "api_call list"

definition say :: "reply \<Rightarrow> conversation \<Rightarrow> conversation" where
  "say r conv = conv\<lparr>replies := replies conv @ [r]\<rparr>"

text \<open>
  \<^verbatim>\<open>str.lower\<close>. The characters of a string are the code points 0 to 255: the capital
  letters among them are A to Z and the code points 192 to 222 without 215 (the
  multiplication sign), each 32 below its small letter.
\<close>

definition lower_char :: "char \<Rightarrow> char" where
  "lower_char c =
     (let n = (of_char c :: nat)
      in if (65 \<le> n \<and> n \<le> 90) \<or> (192 \<le> n \<and> n \<le> 222 \<and> n \<noteq> 215) then char_of (n + 32) else c)"

definition str_lower :: "string \<Rightarrow> string" where
  "str_lower s = map lower_char s"

text \<open>\<^verbatim>\<open>CATEGORY_COLOR_MAP\<close> and \<^verbatim>\<open>_color_id_from_category\<close>\<close>

definition CATEGORY_COLOR_MAP :: "(string \<times> string) list" where
  "CATEGORY_COLOR_MAP =
     [(''work'', ''6''), (''meeting'', ''2''), (''study'', ''9''), (''personal'', ''5''),
      (''health'', ''10''), (''sport'', ''11''), (''hobby'', ''7''), (''travel'', ''4''),
      (''focus'', ''1''), (''other'', ''3'')]"

definition color_id_from_category :: "string option \<Rightarrow> string option" where
  "color_id_from_category category =
     (if \<not> truthy_str category then None else map_of CATEGORY_COLOR_MAP (str_lower (the category)))"

text \<open>\<^verbatim>\<open>_build_reminders_from_minutes\<close> with \<^verbatim>\<open>RemindersConfig.from_minutes\<close>.\<close>

definition build_reminders_from_minutes :: "int option \<Rightarrow> int list option" where
  "build_reminders_from_minutes minutes =
     (case minutes of
        None \<Rightarrow> None
      | Some m \<Rightarrow> (if m \<le> 0 then Some [] else Some [m]))"

text \<open>
  The comprehension \<^verbatim>\<open>{k: v for k, v in plan.patch.items() if v not in (None, "", [])}\<close>
  with the \<^verbatim>\<open>category\<close> key popped from it.
\<close>

definition sanitize :: "update_data \<Rightarrow> update_data" where
  "sanitize p =
     p\<lparr>ud_title := (if truthy_str (ud_title p) then ud_title p else None),
       ud_description := (if truthy_str (ud_description p) then ud_description p else None),
       ud_location := (if truthy_str (ud_location p) then ud_location p else None),
       ud_category := None\<rparr>"

text \<open>The loop \<^verbatim>\<open>update_data.patch.setdefault(key, value)\<close> over the inferred updates.\<close>

definition setdefaults :: "update_data \<Rightarrow> update_data \<Rightarrow> update_data" where
  "setdefaults p extra =
     \<lparr>ud_start = (case ud_start p of None \<Rightarrow> ud_start extra | v \<Rightarrow> v),
      ud_end = (case ud_end p of None \<Rightarrow> ud_end extra | v \<Rightarrow> v),
      ud_shift_minutes = (case ud_shift_minutes p of None \<Rightarrow> ud_shift_minutes extra | v \<Rightarrow> v),
      ud_duration_minutes =
        (case ud_duration_minutes p of None \<Rightarrow> ud_duration_minutes extra | v \<Rightarrow> v),
      ud_title = (case ud_title p of None \<Rightarrow> ud_title extra | v \<Rightarrow> v),
      ud_description = (case ud_description p of None \<Rightarrow> ud_description extra | v \<Rightarrow> v),
      ud_location = (case ud_location p of None \<Rightarrow> ud_location extra | v \<Rightarrow> v),
      ud_category = (case ud_category p of None \<Rightarrow> ud_category extra | v \<Rightarrow> v)\<rparr>"

text \<open>
  What \<^verbatim>\<open>handle_event_update_by_id\<close> computes from the payload before it calls
  \<^verbatim>\<open>_apply_event_update\<close>: the sanitized patch, the two Meet flags (removal wins), the
  colour and the reminder minutes. It is also the payload it stores on a conflict.
\<close>

definition normalized_plan :: "EventUpdatePayload \<Rightarrow> update_data \<Rightarrow> EventUpdatePayload" where
  "normalized_plan update plan_patch =
     (let sanitized_update = sanitize plan_patch;
          remove_meet_requested = up_remove_meet update;
          add_meet_requested = (up_add_meet update \<and> \<not> remove_meet_requested);
          new_category = (if truthy_str (ud_category plan_patch) then ud_category plan_patch
                          else None);
          color = (if truthy_str (up_color_id update) then up_color_id update
                   else color_id_from_category new_category)
      in \<lparr>patch = sanitized_update, up_add_meet = add_meet_requested,
          up_remove_meet = remove_meet_requested, up_color_id = color,
          up_reminder_minutes = up_reminder_minutes update\<rparr>)"

text \<open>
  The keyword arguments of the two calls of \<^verbatim>\<open>_apply_event_update\<close>, in
  \<^verbatim>\<open>handle_event_update_by_id\<close> and in \<^verbatim>\<open>apply_update_from_pending_conflict\<close>: they
  differ in \<^verbatim>\<open>ignore_conflicts\<close> only.
\<close>

definition plan_options :: "EventUpdatePayload \<Rightarrow> bool \<Rightarrow> update_options" where
  "plan_options plan ignore =
     \<lparr>add_meet = up_add_meet plan, remove_meet = up_remove_meet plan,
      opt_color_id = up_color_id plan,
      opt_reminders = build_reminders_from_minutes (up_reminder_minutes plan),
      clear_reminders = (up_reminder_minutes plan = Some 0),
      ignore_conflicts = ignore\<rparr>"

text \<open>
  \<^verbatim>\<open>handle_event_update_by_id\<close> for an \<^verbatim>\<open>EventUpdatePayload\<close>. What
  \<^verbatim>\<open>infer_update_data_from_text\<close> reads in the text of the message is the parameter
  \<open>infer\<close>: \<open>None\<close> for an empty text, as in the call from the button handler.
\<close>

definition handle_event_update_by_id ::
  "backend \<Rightarrow> datetime \<Rightarrow> int \<Rightarrow> string \<Rightarrow> EventUpdatePayload
     \<Rightarrow> (aware \<Rightarrow> update_data) option \<Rightarrow> conversation \<Rightarrow> conversation" where
  "handle_event_update_by_id be now tid eid update infer conv =
     (case call be (GetEvent tid eid) (calls conv) of
        (Event event, calls1) \<Rightarrow>
          (let plan_patch =
                 (case (parse_google_aware (event_start event), infer) of
                    (Some original_start_dt, Some f) \<Rightarrow> setdefaults (patch update) (f original_start_dt)
                  | _ \<Rightarrow> patch update);
               plan = normalized_plan update plan_patch
           in case apply_event_update be now tid eid event (patch plan)
                     (plan_options plan False) calls1 of
                (Inr updated_event, calls2) \<Rightarrow>
                  (let summ = (if summary updated_event \<noteq> [] then summary updated_event
                               else ''(no title)'');
                       conv1 = say (EventUpdated summ) (conv\<lparr>calls := calls2\<rparr>);
                       ud1 = (user conv1)\<lparr>expecting_window_query := False\<rparr>;
                       ud2 = set_last_event_context ud1 (Some eid) (Some summ);
                       ud3 = set_last_event_query ud2 (Some summ)
                   in conv1\<lparr>user := ud3\<rparr>)
              | (Inl (UpdateConflictDetected conflict), calls2) \<Rightarrow>
                  (let ud1 = set_pending_update_conflict (user conv)
                               (Some \<lparr>puc_event_id = eid, puc_update = plan,
                                      puc_original_event = event,
                                      puc_conflict = Some conflict\<rparr>)
                   in say (UpdateConflictPrompt conflict) (conv\<lparr>user := ud1, calls := calls2\<rparr>))
              | (Inl _, calls2) \<Rightarrow> say UpdateFailed (conv\<lparr>calls := calls2\<rparr>))
      | (_, calls1) \<Rightarrow> say EventNotFound (conv\<lparr>calls := calls1\<rparr>))"

text \<open>\<^verbatim>\<open>apply_update_from_pending_conflict\<close>\<close>

definition apply_update_from_pending_conflict ::
  "backend \<Rightarrow> datetime \<Rightarrow> int \<Rightarrow> PendingUpdateConflict \<Rightarrow> conversation \<Rightarrow> conversation" where
  "apply_update_from_pending_conflict be now tid payload conv =
     (let plan = puc_update payload
      in case apply_event_update be now tid (puc_event_id payload) (puc_original_event payload)
                (patch plan) (plan_options plan True) (calls conv) of
           (Inr updated_event, calls1) \<Rightarrow>
             (let summ = (if summary updated_event \<noteq> [] then summary updated_event
                          else ''(no title)'');
                  conv1 = say (EventUpdated summ) (conv\<lparr>calls := calls1\<rparr>);
                  ud1 = set_last_event_context (user conv1) (Some (puc_event_id payload)) (Some summ);
                  ud2 = set_last_event_query ud1 (Some summ)
              in conv1\<lparr>user := ud2\<rparr>)
         | (Inl _, calls1) \<Rightarrow> say UpdateFailed (conv\<lparr>calls := calls1\<rparr>))"

text \<open>\<^verbatim>\<open>_create_event_with_payload\<close> and \<^verbatim>\<open>create_event_from_pending\<close>\<close>

definition create_event_with_payload ::
  "backend \<Rightarrow> int \<Rightarrow> event_kwargs \<Rightarrow> conversation \<Rightarrow> conversation" where
  "create_event_with_payload be tid draft conv =
     (case call be (CreateEvent tid draft) (calls conv) of
        (Event created, calls1) \<Rightarrow>
          (let conv1 = say EventCreated (conv\<lparr>calls := calls1\<rparr>);
               ud1 = set_last_event_query (user conv1) (kw_summary draft);
               ud2 = set_last_event_context ud1 (Some (event_id created)) (kw_summary draft)
           in conv1\<lparr>user := ud2\<lparr>expecting_window_query := False\<rparr>\<rparr>)
      | (_, calls1) \<Rightarrow> say CreateFailed (conv\<lparr>calls := calls1\<rparr>))"

definition create_event_from_pending ::
  "backend \<Rightarrow> int \<Rightarrow> PendingCreateConflict \<Rightarrow> conversation \<Rightarrow> conversation" where
  "create_event_from_pending be tid payload conv =
     create_event_with_payload be tid (pcc_draft payload) conv"

text \<open>
  \<^verbatim>\<open>handle_create_event\<close> from its conflict check on: the draft and its two datetimes
  have been built from the message. An exception of the check leaves the handler.
\<close>

definition handle_create_event ::
  "backend \<Rightarrow> int \<Rightarrow> event_kwargs \<Rightarrow> datetime \<Rightarrow> datetime \<Rightarrow> string \<Rightarrow> conversation
     \<Rightarrow> error + conversation" where
  "handle_create_event be tid event_draft start_dt end_dt reply_text conv =
     (case detect_conflict be tid start_dt end_dt None (calls conv) of
        (Inl err, calls1) \<Rightarrow> Inl err
      | (Inr (Some conflict), calls1) \<Rightarrow>
          Inr (say (CreateConflictPrompt conflict)
                 (conv\<lparr>user := set_pending_create_conflict (user conv)
                                   (Some \<lparr>pcc_draft = event_draft, pcc_conflict = conflict,
                                          pcc_reply_text = reply_text\<rparr>),
                       calls := calls1\<rparr>))
      | (Inr None, calls1) \<Rightarrow>
          Inr (create_event_with_payload be tid event_draft (conv\<lparr>calls := calls1\<rparr>)))"

text \<open>
  The callback data that \<^verbatim>\<open>handle_callback_query\<close> decides on; \<^verbatim>\<open>delete_<i>\<close> and
  \<^verbatim>\<open>update_<i>\<close> carry the number that \<^verbatim>\<open>int\<close> reads.
\<close>

datatype callback_data =
    ConfirmDelete
  | DeleteIdx int
  | CancelDelete
  | UpdateIdx int
  | CancelUpdate
  | ConflictConfirm
  | ConflictCancel

text \<open>
  \<^verbatim>\<open>xs[i]\<close>: a negative index counts from the end, and an index outside the list raises
  \<^verbatim>\<open>IndexError\<close>.
\<close>

definition py_index :: "'a list \<Rightarrow> int \<Rightarrow> error + 'a" where
  "py_index xs i =
     (if 0 \<le> i \<and> i < int (length xs) then Inr (xs ! nat i)
      else if i < 0 \<and> - int (length xs) \<le> i then Inr (xs ! nat (int (length xs) + i))
      else Inl IndexError)"

definition handle_callback_query ::
  "backend \<Rightarrow> datetime \<Rightarrow> int \<Rightarrow> callback_data \<Rightarrow> conversation \<Rightarrow> error + conversation" where
  "handle_callback_query be now tid data conv =
     (case data of
        ConfirmDelete \<Rightarrow>
          (case get_pending_delete (user conv) of
             None \<Rightarrow> Inr (say DeleteInfoLost conv)
           | Some pending \<Rightarrow>
               (let conv1 =
                      (case call be (DeleteEvent tid (pd_event_id pending)) (calls conv) of
                         (Raises, calls1) \<Rightarrow> say DeleteFailed (conv\<lparr>calls := calls1\<rparr>)
                       | (_, calls1) \<Rightarrow>
                           say (EventDeleted (pd_summary pending)) (conv\<lparr>calls := calls1\<rparr>))
                in Inr (conv1\<lparr>user := snd (pop_pending_delete (user conv1))\<rparr>)))
      | DeleteIdx idx \<Rightarrow>
          (let pending_list = get_pending_delete_list (user conv)
           in if idx \<ge> int (length pending_list) then Inr (say SelectedEventNotFound conv)
              else (case py_index pending_list idx of
                      Inl err \<Rightarrow> Inl err
                    | Inr event_item \<Rightarrow>
                        Inr (say (ConfirmDeletePrompt (pd_summary event_item) (pd_start event_item))
                               (conv\<lparr>user := set_pending_delete (user conv) (Some event_item)\<rparr>))))
      | CancelDelete \<Rightarrow>
          (let conv1 = say DeleteCancelled conv;
               ud1 = snd (pop_pending_delete (user conv1))
           in Inr (conv1\<lparr>user := set_pending_delete_list ud1 None\<rparr>))
      | UpdateIdx idx \<Rightarrow>
          (let pending_list_context = get_pending_update_list (user conv);
               conv1 = conv\<lparr>user := snd (pop_pending_update_detail (user conv))\<rparr>
           in case pending_list_context of
                None \<Rightarrow> Inr (say SelectedEventNotFound conv1)
              | Some ctx \<Rightarrow>
                  (if idx \<ge> int (length (pul_items ctx)) then Inr (say SelectedEventNotFound conv1)
                   else (case py_index (pul_items ctx) idx of
                           Inl err \<Rightarrow> Inl err
                         | Inr event_item \<Rightarrow>
                             (let conv2 = say (UpdatingEvent (pul_summary event_item)) conv1;
                                  conv3 = handle_event_update_by_id be now tid
                                            (pul_event_id event_item) (pul_update_data ctx)
                                            None conv2
                              in Inr (conv3\<lparr>user := snd (pop_pending_update_list (user conv3))\<rparr>)))))
      | CancelUpdate \<Rightarrow>
          (let conv1 = say EditCancelled conv
           in Inr (conv1\<lparr>user := snd (pop_pending_update_list (user conv1))\<rparr>))
      | ConflictConfirm \<Rightarrow>
          (case pop_pending_create_conflict (user conv) of
             (Some payload, ud1) \<Rightarrow>
               Inr (create_event_from_pending be tid payload
                      (say CreatingEvent (conv\<lparr>user := ud1\<rparr>)))
           | (None, ud1) \<Rightarrow>
               (case pop_pending_update_conflict ud1 of
                  (Some update_payload, ud2) \<Rightarrow>
                    Inr (apply_update_from_pending_conflict be now tid update_payload
                           (say Updating (conv\<lparr>user := ud2\<rparr>)))
                | (None, ud2) \<Rightarrow> Inr (say ConflictDataNotFound (conv\<lparr>user := ud2\<rparr>))))
      | ConflictCancel \<Rightarrow>
          (case pop_pending_create_conflict (user conv) of
             (created, ud1) \<Rightarrow>
               (case pop_pending_update_conflict ud1 of
                  (updated, ud2) \<Rightarrow>
                    (let cancelled = (created \<noteq> None \<or> updated \<noteq> None)
                     in Inr (say (if cancelled then ActionCancelled else NoActiveConflict)
                               (conv\<lparr>user := ud2\<rparr>))))))"

text \<open>Several callbacks in a row; the first exception ends the run.\<close>

fun run_callbacks ::
  "backend \<Rightarrow> datetime \<Rightarrow> int \<Rightarrow> callback_data list \<Rightarrow> conversation \<Rightarrow> error + conversation" where
  "run_callbacks be now tid [] conv = Inr conv"
| "run_callbacks be now tid (data # rest) conv =
     (case handle_callback_query be now tid data conv of
        Inl err \<Rightarrow> Inl err
      | Inr conv' \<Rightarrow> run_callbacks be now tid rest conv')"

text \<open>
  A backend for concrete runs: it lists a lunch, a review and a sync on day 739000, knows
  every event id as the stand-up from 10:00 to 10:30, and accepts every write.
\<close>

definition full_backend :: backend where
  "full_backend trace c =
     (case c of
        ListEventsBetween tid t1 t2 n \<Rightarrow>
          Events [busy_event ''ev0'' ''lunch'' (at_day 739000 9 0) (at_day 739000 10 0),
                  busy_event ''ev1'' ''review'' (at_day 739000 10 15) (at_day 739000 10 45),
                  busy_event ''ev2'' ''sync'' (at_day 739000 10 20) (at_day 739000 10 40)]
      | GetEvent tid eid \<Rightarrow>
          Event (busy_event eid ''standup'' (at_day 739000 10 0) (at_day 739000 10 30))
      | UpdateEvent tid eid kwargs \<Rightarrow>
          Event (busy_event eid ''standup'' (at_day 739000 10 0) (at_day 739000 10 30))
      | CreateEvent tid kwargs \<Rightarrow>
          Event (busy_event ''new1'' ''created'' (at_day 739000 10 0) (at_day 739000 10 30))
      | DeleteEvent tid eid \<Rightarrow> Done
      | _ \<Rightarrow> Raises)"

definition no_patch :: update_data where
  "no_patch =
     \<lparr>ud_start = None, ud_end = None, ud_shift_minutes = None, ud_duration_minutes = None,
      ud_title = None, ud_description = None, ud_location = None, ud_category = None\<rparr>"

definition no_options :: update_options where
  "no_options =
     \<lparr>add_meet = False, remove_meet = False, opt_color_id = None, opt_reminders = None,
      clear_reminders = False, ignore_conflicts = False\<rparr>"

definition new_conversation :: conversation where
  "new_conversation = \<lparr>user = empty_user_data, replies = [], calls = []\<rparr>"

text \<open>
  A backend that lists no event and answers an update with the event as written: the
  start and end of the answer are those of the call.
\<close>

definition echo_backend :: backend where
  "echo_backend trace c =
     (case c of
        ListEventsBetween tid t1 t2 n \<Rightarrow> Events []
      | UpdateEvent tid eid kwargs \<Rightarrow>
          Event \<lparr>event_id = eid, summary = ''standup'',
                 event_start = (case kw_start kwargs of Some p \<Rightarrow> p
                                | None \<Rightarrow> \<lparr>dateTime = None, date = None\<rparr>),
                 event_end = (case kw_end kwargs of Some p \<Rightarrow> p
                              | None \<Rightarrow> \<lparr>dateTime = None, date = None\<rparr>),
                 description = None, location = None, html_link = None, hangout_link = None,
                 color_id = None, status = Some ''confirmed''\<rparr>
      | _ \<Rightarrow> Raises)"

definition standup :: CalendarEvent where
  "standup = busy_event ''ev9'' ''standup'' (at_day 739000 10 0) (at_day 739000 10 30)"

definition shift_patch :: "int \<Rightarrow> update_data" where
  "shift_patch m = no_patch\<lparr>ud_shift_minutes := Some m\<rparr>"

definition moved_standup :: CalendarEvent where
  "moved_standup = busy_event ''ev9'' ''standup'' (at_day 739000 11 0) (at_day 739000 11 30)"


definition shift_payload :: EventUpdatePayload where
  "shift_payload =
     \<lparr>patch = shift_patch 15, up_add_meet = False, up_remove_meet = False,
      up_color_id = None, up_reminder_minutes = None\<rparr>"

section \<open>Free slot handlers (bot/free\_slots.py)\<close>

text \<open>\<^verbatim>\<open>_parse_iso_datetime\<close> on a stored string.\<close>

definition parse_iso_datetime :: "iso_string option \<Rightarrow> datetime option" where
  "parse_iso_datetime v = (case v of Some (IsoAt dt d) \<Rightarrow> Some dt | _ \<Rightarrow> None)"

text \<open>
  \<^verbatim>\<open>handle_free_slots\<close> from the point where the duration, the range and the preferred
  hours have been read from the message: the search, the reply and the state it stores.
\<close>

definition handle_free_slots ::
  "backend \<Rightarrow> int \<Rightarrow> int \<Rightarrow> datetime \<Rightarrow> datetime \<Rightarrow> string option \<Rightarrow> int option \<Rightarrow> int option
     \<Rightarrow> conversation \<Rightarrow> error + conversation" where
  "handle_free_slots be tid duration date_from_dt date_to_dt window pref_start pref_end conv =
     (let request = \<lparr>telegram_id = tid, duration_minutes = duration,
                      date_from = date_from_dt, date_to = date_to_dt,
                      preferred_start = pref_start, preferred_end = pref_end\<rparr>
      in case find_slots be request 3 (calls conv) of
           (Inl err, calls1) \<Rightarrow> Inl err
         | (Inr slots, calls1) \<Rightarrow>
             (let conv1 = say (SlotList slots) (conv\<lparr>calls := calls1\<rparr>);
                  next_start = (if slots \<noteq> [] then slot_end (last slots) + timedelta_minutes 15
                                else date_from_dt);
                  request_state =
                    \<lparr>lfs_duration = duration,
                     lfs_date_from = Some (Iso date_from_dt),
                     lfs_date_to = Some (Iso date_to_dt),
                     lfs_preferred_window = window,
                     lfs_preferred_start = pref_start,
                     lfs_preferred_end = pref_end,
                     lfs_next_start = Some (Iso next_start),
                     lfs_cursor_history = [Some (Iso date_from_dt)]\<rparr>;
                  ud1 = set_last_free_slots (user conv1)
                          (Some \<lparr>lfs_slots = slots, lfs_request = request_state,
                                 awaiting_use = (slots \<noteq> [])\<rparr>)
              in Inr (conv1\<lparr>user := ud1\<lparr>expecting_window_query := False\<rparr>\<rparr>)))"

datatype direction = Earlier | Later

text \<open>
  The range of the next search in \<^verbatim>\<open>handle_more_free_slots\<close>, with the cursor history
  to store if the search finds a slot; \<open>None\<close> where the handler answers at once that
  nothing is left in that direction.
\<close>

definition next_range ::
  "datetime \<Rightarrow> direction \<Rightarrow> LastFreeSlotsContext
     \<Rightarrow> (datetime \<times> datetime \<times> iso_string option list) option" where
  "next_range now dir info =
     (let req = lfs_request info;
          last_shown_slots = lfs_slots info;
          original_date_from = (case parse_iso_datetime (lfs_date_from req) of
                                  Some dt \<Rightarrow> dt | None \<Rightarrow> now);
          original_date_to = (case parse_iso_datetime (lfs_date_to req) of
                                Some dt \<Rightarrow> dt
                              | None \<Rightarrow> original_date_from + timedelta_days 7);
          history_raw = (if lfs_cursor_history req \<noteq> [] then lfs_cursor_history req
                         else [lfs_date_from req]);
          history = filter (\<lambda>v. v \<noteq> None) history_raw;
          date_or_default = (\<lambda>v. case parse_iso_datetime v of
                                    Some dt \<Rightarrow> dt | None \<Rightarrow> original_date_from)
      in case dir of
           Earlier \<Rightarrow>
             (if length history \<le> 1 then
                (case last_shown_slots of
                   first_slot # _ \<Rightarrow>
                     (let date_from_dt = original_date_from;
                          date_to_dt = slot_start first_slot - timedelta_minutes 15
                      in if date_from_dt \<ge> date_to_dt then None
                         else Some (date_from_dt, date_to_dt, history))
                 | [] \<Rightarrow> None)
              else
                (let current_start = date_or_default (last history);
                     previous_start = date_or_default (last (butlast history));
                     date_from_dt = previous_start;
                     date_to_dt = current_start - timedelta_minutes 15
                 in if date_from_dt \<ge> date_to_dt then None
                    else Some (date_from_dt, date_to_dt, butlast history)))
         | Later \<Rightarrow>
             (let date_from_dt =
                    (case parse_iso_datetime
                            (if lfs_next_start req \<noteq> None then lfs_next_start req
                             else lfs_date_from req) of
                       Some dt \<Rightarrow> dt | None \<Rightarrow> now);
                  date_to_dt = original_date_to
              in if date_from_dt \<ge> date_to_dt then None
                 else Some (date_from_dt, date_to_dt, history @ [Some (Iso date_from_dt)])))"

text \<open>\<^verbatim>\<open>handle_more_free_slots\<close>\<close>

definition handle_more_free_slots ::
  "backend \<Rightarrow> datetime \<Rightarrow> int \<Rightarrow> direction \<Rightarrow> conversation \<Rightarrow> error + conversation" where
  "handle_more_free_slots be now tid dir conv =
     (case get_last_free_slots (user conv) of
        None \<Rightarrow> Inr (say AskForSearchFirst conv)
      | Some info \<Rightarrow>
          (let req = lfs_request info
           in if lfs_duration req = 0 then Inr (say AskForSearchFirst conv)
              else case next_range now dir info of
                None \<Rightarrow> Inr (say (case dir of Earlier \<Rightarrow> NoEarlierSlots | Later \<Rightarrow> NoMoreSlots) conv)
              | Some (date_from_dt, date_to_dt, history_next) \<Rightarrow>
                  (let request = \<lparr>telegram_id = tid, duration_minutes = lfs_duration req,
                                   date_from = date_from_dt, date_to = date_to_dt,
                                   preferred_start = lfs_preferred_start req,
                                   preferred_end = lfs_preferred_end req\<rparr>
                   in case find_slots be request 3 (calls conv) of
                        (Inl err, calls1) \<Rightarrow> Inl err
                      | (Inr [], calls1) \<Rightarrow>
                          (case dir of
                             Earlier \<Rightarrow> Inr (say NoEarlierSlots (conv\<lparr>calls := calls1\<rparr>))
                           | Later \<Rightarrow>
                               (let updated_request = req\<lparr>lfs_next_start := Some (Iso date_to_dt)\<rparr>;
                                    ud1 = set_last_free_slots (user conv)
                                            (Some \<lparr>lfs_slots = lfs_slots info,
                                                   lfs_request = updated_request,
                                                   awaiting_use = awaiting_use info\<rparr>)
                                in Inr (say NoOtherVariants (conv\<lparr>user := ud1, calls := calls1\<rparr>))))
                      | (Inr slots, calls1) \<Rightarrow>
                          (let next_start = slot_end (last slots) + timedelta_minutes 15;
                               updated_request =
                                 \<lparr>lfs_duration = lfs_duration req,
                                  lfs_date_from = (if lfs_date_from req \<noteq> None then lfs_date_from req
                                                   else Some (Iso (case parse_iso_datetime (lfs_date_from req) of
                                                                     Some dt \<Rightarrow> dt | None \<Rightarrow> now))),
                                  lfs_date_to = (if lfs_date_to req \<noteq> None then lfs_date_to req
                                                 else Some (Iso (case parse_iso_datetime (lfs_date_to req) of
                                                     Some dt \<Rightarrow> dt
                                                   | None \<Rightarrow> (case parse_iso_datetime (lfs_date_from req) of
                                                                Some dt \<Rightarrow> dt | None \<Rightarrow> now)
                                                              + timedelta_days 7))),
                                  lfs_preferred_window = lfs_preferred_window req,
                                  lfs_preferred_start = lfs_preferred_start req,
                                  lfs_preferred_end = lfs_preferred_end req,
                                  lfs_next_start = Some (Iso next_start),
                                  lfs_cursor_history = history_next\<rparr>;
                               ud1 = set_last_free_slots (user conv)
                                       (Some \<lparr>lfs_slots = slots, lfs_request = updated_request,
                                              awaiting_use = (slots \<noteq> [])\<rparr>)
                           in Inr (say (SlotList slots) (conv\<lparr>user := ud1, calls := calls1\<rparr>))))))"

section \<open>Runs of several handlers\<close>

text \<open>
  One handler after another, as long as none raises, and what an observer of a run sees:
  the replies sent and the calls made to the backend.
\<close>

definition then_do ::
  "error + conversation \<Rightarrow> (conversation \<Rightarrow> error + conversation) \<Rightarrow> error + conversation" where
  "then_do r handler = (case r of Inl err \<Rightarrow> Inl err | Inr conv \<Rightarrow> handler conv)"

definition seen :: "error + conversation \<Rightarrow> error + reply list \<times> api_call list" where
  "seen r = (case r of Inl err \<Rightarrow> Inl err | Inr conv \<Rightarrow> Inr (replies conv, calls conv))"

text \<open>Which of the two pending conflicts a conversation holds: the create one, the update one.\<close>

definition held :: "error + conversation \<Rightarrow> error + bool \<times> bool" where
  "held r =
     (case r of
        Inl err \<Rightarrow> Inl err
      | Inr conv \<Rightarrow> Inr (pending_conflict (user conv) \<noteq> None,
                          pending_update_conflict (user conv) \<noteq> None))"

text \<open>Concrete conversations: a delete list and an update list of two candidates each.\<close>

definition delete_items :: "PendingDeleteItem list" where
  "delete_items =
     [\<lparr>pd_event_id = ''ev1'', pd_summary = ''review'', pd_start = ''10:15''\<rparr>,
      \<lparr>pd_event_id = ''ev2'', pd_summary = ''sync'', pd_start = ''10:20''\<rparr>]"

definition delete_conversation :: conversation where
  "delete_conversation =
     new_conversation\<lparr>user := set_pending_delete_list empty_user_data (Some delete_items)\<rparr>"

definition update_items :: "PendingUpdateListItem list" where
  "update_items =
     [\<lparr>pul_event_id = ''ev8'', pul_summary = ''standup'', pul_start = ''10:00'',
       pul_event_data = busy_event ''ev8'' ''standup'' (at_day 739000 10 0) (at_day 739000 10 30)\<rparr>,
      \<lparr>pul_event_id = ''ev9'', pul_summary = ''standup'', pul_start = ''10:00'',
       pul_event_data = standup\<rparr>]"

definition update_conversation :: conversation where
  "update_conversation =
     new_conversation\<lparr>user := set_pending_update_list empty_user_data
        (Some \<lparr>pul_items = update_items,
               pul_update_data = shift_payload\<lparr>patch := shift_patch 60\<rparr>\<rparr>)\<rparr>"

definition standup_draft :: event_kwargs where
  "standup_draft =
     no_kwargs\<lparr>kw_summary := Some ''standup'',
               kw_start := Some (iso_payload (at_day 739000 10 0)),
               kw_end := Some (iso_payload (at_day 739000 10 30))\<rparr>"

definition create_conversation :: conversation where
  "create_conversation =
     new_conversation\<lparr>user := set_pending_create_conflict empty_user_data
        (Some \<lparr>pcc_draft = standup_draft,
               pcc_conflict = ConflictInfo ''review''
                 (at_day 739000 10 15, at_day 739000 10 45) ''ev1'',
               pcc_reply_text = ''ok''\<rparr>)\<rparr>"

definition shifted_conversation :: conversation where
  "shifted_conversation =
     handle_event_update_by_id full_backend (at_day 739000 8 0) 7 ''ev9'' shift_payload None
       new_conversation"

text \<open>
  A conversation after a first search: one hour between 13 and 20 o'clock, from day 739000
  at 13:00 to the end of day 739001; its last slot ends on day 739001 at 14:00.
\<close>

definition searched_conversation :: conversation where
  "searched_conversation =
     (case handle_free_slots example_backend 7 60 (at_day 739000 13 0) (at_day 739002 0 0)
             None (Some 13) (Some 20) new_conversation of
        Inr conv \<Rightarrow> conv
      | Inl err \<Rightarrow> new_conversation)"

section \<open>Properties\<close>

subsection \<open>Free slot search\<close>

lemma is_free_iff:
  "is_free cs ce busy \<longleftrightarrow> (\<forall>(b_start, b_end) \<in> set busy. \<not> (cs < b_end \<and> ce > b_start))"
  by (induction cs ce busy rule: is_free.induct) auto

lemma scan_day_Some:
  "scan_day duration day_end end_bound busy candidate_start = Some slot \<Longrightarrow>
     slot_end slot = slot_start slot + duration \<and> candidate_start \<le> slot_start slot
     \<and> slot_end slot \<le> day_end \<and> slot_end slot \<le> end_bound
     \<and> is_free (slot_start slot) (slot_end slot) busy"
proof (induction duration day_end end_bound busy candidate_start rule: scan_day.induct)
  case (1 duration day_end end_bound busy candidate_start)
  show ?case
  proof (cases "is_free candidate_start (candidate_start + duration) busy")
    case True
    with "1.prems" show ?thesis
      by (subst (asm) scan_day.simps) (auto simp: Let_def split: if_splits)
  next
    case False
    with "1.prems" have c: "candidate_start + duration \<le> day_end"
      "\<not> candidate_start + duration > end_bound"
      and r: "scan_day duration day_end end_bound busy (candidate_start + timedelta_minutes 30) = Some slot"
      by (subst (asm) scan_day.simps, auto simp: Let_def split: if_splits)+
    from "1.IH"[OF c(1) refl c(2) False r] show ?thesis
      by (auto simp: timedelta_minutes_def usec_per_minute_def)
  qed
qed

lemma replace_hour_bounds:
  assumes "replace_hour dt h = Inr r"
  shows "dt - dt mod usec_per_day \<le> r" "r < dt - dt mod usec_per_day + usec_per_day"
  using assms by (auto simp: replace_hour_def usec_per_day_def usec_per_hour_def split: if_splits)

lemma find_slots_loop_unfold:
  assumes "cursor < end_bound" "int (length slots) < max_suggestions"
    and "find_slots_loop request max_suggestions busy start_bound end_bound cursor slots = Inr res"
  obtains day_start0 day_end0 next_day where
    "replace_hour cursor (case preferred_start request of Some h \<Rightarrow> h | None \<Rightarrow> 8) = Inr day_start0"
    "replace_hour cursor (case preferred_end request of Some h \<Rightarrow> h | None \<Rightarrow> 20) = Inr day_end0"
    "replace_hour (cursor + timedelta_days 1) (case preferred_start request of Some h \<Rightarrow> h | None \<Rightarrow> 8) = Inr next_day"
    "find_slots_loop request max_suggestions busy start_bound end_bound (max next_day start_bound)
       (case scan_day (timedelta_minutes (duration_minutes request))
               (if day_end0 > end_bound then end_bound else day_end0) end_bound busy
               (max cursor (if day_start0 < start_bound then start_bound else day_start0)) of
          Some slot \<Rightarrow> slots @ [slot] | None \<Rightarrow> slots) = Inr res"
  using assms
  by (subst (asm) find_slots_loop.simps) (auto simp: Let_def split: sum.splits)

lemma find_slots_loop_exit:
  "\<not> (cursor < end_bound \<and> int (length slots) < max_suggestions) \<Longrightarrow>
     find_slots_loop request max_suggestions busy start_bound end_bound cursor slots = Inr slots"
  by (subst find_slots_loop.simps) auto

lemma day_slots_cases:
  assumes "replace_hour cursor h = Inr day_end0"
  obtains "day_slots request busy start_bound end_bound cursor day_start0 day_end0 slots = slots"
  | slot where "day_slots request busy start_bound end_bound cursor day_start0 day_end0 slots = slots @ [slot]"
      "slot_end slot - slot_start slot = timedelta_minutes (duration_minutes request)"
      "is_free (slot_start slot) (slot_end slot) busy"
      "cursor \<le> slot_start slot"
      "slot_end slot < cursor - cursor mod usec_per_day + usec_per_day"
proof (cases "scan_day (timedelta_minutes (duration_minutes request))
               (if day_end0 > end_bound then end_bound else day_end0) end_bound busy
               (max cursor (if day_start0 < start_bound then start_bound else day_start0))")
  case None
  then show ?thesis using that(1) by (simp add: day_slots_def)
next
  case (Some slot)
  note s = scan_day_Some[OF Some]
  from s have "slot_end slot \<le> day_end0" by (simp split: if_splits)
  with replace_hour_bounds(2)[OF assms]
  have "slot_end slot < cursor - cursor mod usec_per_day + usec_per_day" by simp
  moreover from s have "cursor \<le> slot_start slot" by simp
  moreover from s have "slot_end slot - slot_start slot = timedelta_minutes (duration_minutes request)" by simp
  moreover from s have "is_free (slot_start slot) (slot_end slot) busy" by blast
  ultimately show ?thesis using that(2)[of slot] Some by (simp add: day_slots_def)
qed

lemma next_day_after:
  assumes "replace_hour (cursor + timedelta_days 1) h = Inr next_day"
  shows "cursor - cursor mod usec_per_day + usec_per_day \<le> next_day"
proof -
  have "(cursor + usec_per_day) mod usec_per_day = cursor mod usec_per_day" by simp
  with replace_hour_bounds(1)[OF assms] show ?thesis
    by (simp add: timedelta_days_def)
qed

lemma loop_inv_step:
  assumes inv: "loop_inv request max_suggestions busy cursor slots"
    and c: "int (length slots) < max_suggestions"
    and e: "replace_hour cursor h = Inr day_end0"
    and n: "replace_hour (cursor + timedelta_days 1) h' = Inr next_day"
  shows "loop_inv request max_suggestions busy (max next_day start_bound)
           (day_slots request busy start_bound end_bound cursor day_start0 day_end0 slots)"
proof -
  have lt: "cursor < max next_day start_bound"
  proof -
    have "cursor mod usec_per_day < usec_per_day" by (simp add: usec_per_day_def)
    with next_day_after[OF n] show ?thesis by simp
  qed
  show ?thesis
  proof (rule day_slots_cases[OF e, of request busy start_bound end_bound day_start0 slots])
    assume "day_slots request busy start_bound end_bound cursor day_start0 day_end0 slots = slots"
    with inv lt show ?thesis by (fastforce simp: loop_inv_def)
  next
    fix slot
    assume d: "day_slots request busy start_bound end_bound cursor day_start0 day_end0 slots = slots @ [slot]"
      and p: "slot_end slot - slot_start slot = timedelta_minutes (duration_minutes request)"
        "is_free (slot_start slot) (slot_end slot) busy"
        "cursor \<le> slot_start slot"
        "slot_end slot < cursor - cursor mod usec_per_day + usec_per_day"
    have pos: "0 \<le> duration_minutes request \<Longrightarrow> slot_start slot < max next_day start_bound"
    proof -
      assume "0 \<le> duration_minutes request"
      then have "0 \<le> timedelta_minutes (duration_minutes request)"
        by (simp add: timedelta_minutes_def usec_per_minute_def)
      with p(1) have "slot_start slot \<le> slot_end slot" by simp
      with p(4) next_day_after[OF n] show ?thesis by simp
    qed
    from inv p(1,2) have 1: "\<forall>s \<in> set (slots @ [slot]).
        slot_end s - slot_start s = timedelta_minutes (duration_minutes request)
         \<and> is_free (slot_start s) (slot_end s) busy"
      by (auto simp: loop_inv_def)
    from inv p(3) pos lt have 2: "0 \<le> duration_minutes request \<longrightarrow>
          sorted_wrt (\<lambda>a b. slot_start a < slot_start b) (slots @ [slot])
          \<and> (\<forall>s \<in> set (slots @ [slot]). slot_start s < max next_day start_bound)"
      by (fastforce simp: loop_inv_def sorted_wrt_append)
    from c have 3: "0 \<le> max_suggestions \<longrightarrow> int (length (slots @ [slot])) \<le> max_suggestions"
      by simp
    from 1 2 3 show ?thesis unfolding d loop_inv_def by blast
  qed
qed

lemma find_slots_loop_inv:
  assumes "find_slots_loop request max_suggestions busy start_bound end_bound cursor slots = Inr res"
      and "loop_inv request max_suggestions busy cursor slots"
  shows "\<exists>cursor'. loop_inv request max_suggestions busy cursor' res"
  using assms
proof (induction request max_suggestions busy start_bound end_bound cursor slots rule: find_slots_loop.induct)
  case (1 request max_suggestions busy start_bound end_bound cursor slots)
  show ?case
  proof (cases "cursor < end_bound \<and> int (length slots) < max_suggestions")
    case False
    with "1.prems" show ?thesis by (auto simp add: find_slots_loop_exit)
  next
    case True
    then have c: "cursor < end_bound" "int (length slots) < max_suggestions" by simp_all
    from c "1.prems"(1) obtain day_start0 day_end0 next_day where
      r: "replace_hour cursor (case preferred_start request of Some h \<Rightarrow> h | None \<Rightarrow> 8) = Inr day_start0"
         "replace_hour cursor (case preferred_end request of Some h \<Rightarrow> h | None \<Rightarrow> 20) = Inr day_end0"
         "replace_hour (cursor + timedelta_days 1) (case preferred_start request of Some h \<Rightarrow> h | None \<Rightarrow> 8) = Inr next_day"
      and rec: "find_slots_loop request max_suggestions busy start_bound end_bound (max next_day start_bound)
       (case scan_day (timedelta_minutes (duration_minutes request))
               (if day_end0 > end_bound then end_bound else day_end0) end_bound busy
               (max cursor (if day_start0 < start_bound then start_bound else day_start0)) of
          Some slot \<Rightarrow> slots @ [slot] | None \<Rightarrow> slots) = Inr res"
      by (rule find_slots_loop_unfold)
    from loop_inv_step[OF "1.prems"(2) c(2) r(2) r(3), of start_bound end_bound day_start0]
    have ok: "loop_inv request max_suggestions busy (max next_day start_bound)
       (case scan_day (timedelta_minutes (duration_minutes request))
               (if day_end0 > end_bound then end_bound else day_end0) end_bound busy
               (max cursor (if day_start0 < start_bound then start_bound else day_start0)) of
          Some slot \<Rightarrow> slots @ [slot] | None \<Rightarrow> slots)"
      by (simp add: day_slots_def)
    show ?thesis
      by (rule "1.IH"[OF True refl refl r(1) r(2) refl refl refl refl r(3) rec ok])
  qed
qed

lemmas time_defs = at_day_def usec_per_day_def usec_per_hour_def usec_per_minute_def
  timedelta_minutes_def timedelta_days_def

text \<open>
  Claim C1. Every slot that \<^verbatim>\<open>find_slots\<close> returns lasts exactly the requested duration
  and overlaps, by the strict half-open comparison, none of the busy intervals fetched
  for the search; the list is ordered earliest-first (strictly increasing starts, for a
  duration that is not negative) and holds at most \<^verbatim>\<open>max_suggestions\<close> slots (for a
  \<^verbatim>\<open>max_suggestions\<close> that is not negative).
\<close>

theorem find_slots_sound:
  assumes "find_slots be request max_suggestions trace = (Inr slots, trace')"
  shows "\<exists>busy. fetch_busy_intervals be (telegram_id request) (date_from request)
                  (date_to request) trace = (Inr busy, trace')
           \<and> (\<forall>s \<in> set slots.
                 slot_end s - slot_start s = timedelta_minutes (duration_minutes request)
                 \<and> (\<forall>(b_start, b_end) \<in> set busy.
                       \<not> (slot_start s < b_end \<and> slot_end s > b_start)))
           \<and> (0 \<le> duration_minutes request \<longrightarrow>
                 sorted_wrt (\<lambda>a b. slot_start a < slot_start b) slots)
           \<and> (0 \<le> max_suggestions \<longrightarrow> int (length slots) \<le> max_suggestions)"
proof -
  from assms obtain busy where
    f: "fetch_busy_intervals be (telegram_id request) (date_from request) (date_to request) trace
          = (Inr busy, trace')"
    and l: "find_slots_loop request max_suggestions busy (date_from request) (date_to request)
          (date_from request) [] = Inr slots"
    by (auto simp: find_slots_def Let_def split: prod.splits sum.splits)
  have "loop_inv request max_suggestions busy (date_from request) []"
    by (simp add: loop_inv_def)
  from find_slots_loop_inv[OF l this] obtain cursor' where
    "loop_inv request max_suggestions busy cursor' slots" ..
  then have "(\<forall>s \<in> set slots.
                 slot_end s - slot_start s = timedelta_minutes (duration_minutes request)
                 \<and> (\<forall>(b_start, b_end) \<in> set busy.
                       \<not> (slot_start s < b_end \<and> slot_end s > b_start)))
           \<and> (0 \<le> duration_minutes request \<longrightarrow>
                 sorted_wrt (\<lambda>a b. slot_start a < slot_start b) slots)
           \<and> (0 \<le> max_suggestions \<longrightarrow> int (length slots) \<le> max_suggestions)"
    unfolding loop_inv_def is_free_iff by blast
  with f show ?thesis by blast
qed

lemma example_search:
  "find_slots example_backend example_request 3 [] =
     (Inr [\<lparr>slot_start = at_day 739000 9 0, slot_end = at_day 739000 9 30\<rparr>,
           \<lparr>slot_start = at_day 739001 9 0, slot_end = at_day 739001 9 30\<rparr>],
      [ListEventsBetween 7 (at_day 739000 0 0) (at_day 739002 0 0) 250])"
  by code_simp

theorem find_slots_sound_witness:
  "find_slots example_backend example_request 3 [] =
     (Inr [\<lparr>slot_start = at_day 739000 9 0, slot_end = at_day 739000 9 30\<rparr>,
           \<lparr>slot_start = at_day 739001 9 0, slot_end = at_day 739001 9 30\<rparr>],
      [ListEventsBetween 7 (at_day 739000 0 0) (at_day 739002 0 0) 250])
   \<and> 0 \<le> duration_minutes example_request \<and> (0::int) \<le> 3
   \<and> sorted_wrt (\<lambda>a b. slot_start a < slot_start b)
        [\<lparr>slot_start = at_day 739000 9 0, slot_end = at_day 739000 9 30\<rparr>,
         \<lparr>slot_start = at_day 739001 9 0, slot_end = at_day 739001 9 30\<rparr>]
   \<and> int (length [\<lparr>slot_start = at_day 739000 9 0, slot_end = at_day 739000 9 30\<rparr>,
         \<lparr>slot_start = at_day 739001 9 0, slot_end = at_day 739001 9 30\<rparr>]) \<le> 3"
proof -
  have d: "0 \<le> duration_minutes example_request" by (simp add: example_request_def)
  from find_slots_sound[OF example_search] d show ?thesis
    using example_search by (simp add: time_defs)
qed

subsection \<open>Conflict detection\<close>

lemma first_conflict_block:
  assumes "spec_blocking start_dt end_dt exclude_event_id item" "exclude_event_id \<noteq> Some []"
  shows "first_conflict start_dt end_dt exclude_event_id (item # events)
           = Some (spec_description item)"
proof -
  from assms(1) obtain s e where
    p: "parse_google_datetime (event_start item) = Some s"
       "parse_google_datetime (event_end item) = Some e"
    and o: "start_dt < e" "end_dt > s"
    and c: "status item \<noteq> Some ''cancelled''" and x: "exclude_event_id \<noteq> Some (event_id item)"
    by (auto simp: spec_blocking_def interval_of_def split: option.splits)
  from x have "\<not> (case exclude_event_id of Some e \<Rightarrow> e \<noteq> [] \<and> event_id item = e | None \<Rightarrow> False)"
    by (cases exclude_event_id) auto
  with p o c show ?thesis
    by (simp add: spec_description_def interval_of_def)
qed

lemma first_conflict_skip:
  assumes "\<not> spec_blocking start_dt end_dt exclude_event_id item" "exclude_event_id \<noteq> Some []"
  shows "first_conflict start_dt end_dt exclude_event_id (item # events)
           = first_conflict start_dt end_dt exclude_event_id events"
proof (cases "status item = Some ''cancelled''")
  case True
  then show ?thesis by simp
next
  case nc: False
  show ?thesis
  proof (cases "case exclude_event_id of Some e \<Rightarrow> e \<noteq> [] \<and> event_id item = e | None \<Rightarrow> False")
    case True
    with nc show ?thesis by simp
  next
    case False
    with assms(2) have x: "exclude_event_id \<noteq> Some (event_id item)"
      by (cases exclude_event_id) auto
    show ?thesis
    proof (cases "interval_of item")
      case None
      then show ?thesis using nc False
        by (cases "parse_google_datetime (event_start item)";
            cases "parse_google_datetime (event_end item)")
           (simp_all add: interval_of_def)
    next
      case (Some iv)
      obtain s e where iv: "iv = (s, e)" by (cases iv)
      from Some iv have p: "parse_google_datetime (event_start item) = Some s"
        "parse_google_datetime (event_end item) = Some e"
        by (auto simp: interval_of_def split: option.splits)
      from assms(1) nc x Some iv have "\<not> (start_dt < e \<and> end_dt > s)"
        by (simp add: spec_blocking_def)
      with p nc False show ?thesis by auto
    qed
  qed
qed

lemma first_conflict_spec:
  assumes "exclude_event_id \<noteq> Some []"
  shows "first_conflict start_dt end_dt exclude_event_id events
       = spec_detect start_dt end_dt exclude_event_id events"
proof (induction events)
  case Nil
  show ?case by (simp add: spec_detect_def)
next
  case (Cons item events)
  show ?case
  proof (cases "spec_blocking start_dt end_dt exclude_event_id item")
    case True
    then show ?thesis
      by (simp only: first_conflict_block[OF True assms]) (simp add: spec_detect_def)
  next
    case False
    then show ?thesis using Cons
      by (simp only: first_conflict_skip[OF False assms]) (simp add: spec_detect_def)
  qed
qed

lemma detect_conflict_Inr:
  assumes "detect_conflict be tid start_dt end_dt exclude_event_id trace = (Inr answer, trace')"
  shows "\<exists>events. be trace (ListEventsBetween tid (start_dt - timedelta_minutes 1)
                     (end_dt + timedelta_minutes 1) 20) = Events events
           \<and> answer = first_conflict start_dt end_dt exclude_event_id events"
  using assms
  by (cases "be trace (ListEventsBetween tid (start_dt - timedelta_minutes 1)
                     (end_dt + timedelta_minutes 1) 20)")
     (simp_all add: detect_conflict_def call_def Let_def)

lemma touching_not_blocking:
  assumes "\<forall>s e. interval_of item = Some (s, e) \<longrightarrow> e = start_dt \<or> s = end_dt"
  shows "\<not> spec_blocking start_dt end_dt exclude_event_id item"
proof (cases "interval_of item")
  case None
  then show ?thesis by (simp add: spec_blocking_def)
next
  case (Some iv)
  obtain s e where iv: "iv = (s, e)" by (cases iv)
  with Some assms have "e = start_dt \<or> s = end_dt" by simp
  with Some iv show ?thesis by (auto simp: spec_blocking_def)
qed

lemma touching_not_reported:
  assumes "interval_of item = Some (s, e)" "e = start_dt \<or> s = end_dt"
  shows "map_option spec_description (find (spec_blocking start_dt end_dt exclude_event_id) events)
           \<noteq> Some (spec_description item)"
proof
  assume "map_option spec_description (find (spec_blocking start_dt end_dt exclude_event_id) events)
           = Some (spec_description item)"
  then obtain other where f: "find (spec_blocking start_dt end_dt exclude_event_id) events = Some other"
    and d: "spec_description other = spec_description item"
    by auto
  from f have b: "spec_blocking start_dt end_dt exclude_event_id other"
    by (auto simp: find_Some_iff)
  then obtain iv where o: "interval_of other = Some iv"
    by (cases "interval_of other") (auto simp: spec_blocking_def)
  from d o assms(1) have "interval_of other = Some (s, e)"
    by (simp add: spec_description_def)
  with assms(2) have "\<not> spec_blocking start_dt end_dt exclude_event_id other"
    by (intro touching_not_blocking) auto
  with b show False by blast
qed

text \<open>
  Claim C2. When \<^verbatim>\<open>_detect_conflict\<close> returns, it has fetched the events of the window from
  one minute before the start to one minute after the end, and it answers with a blocking
  event exactly when one of the fetched events is not cancelled, is not the excluded event
  and strictly overlaps the candidate; the answer describes the first such event in the
  order of the backend; an event that only shares a boundary instant with the candidate
  does not block and is not the one reported. The excluded id is any id but the empty
  string, which the code takes for no exclusion.
\<close>

theorem detect_conflict_iff:
  assumes "detect_conflict be tid start_dt end_dt exclude_event_id trace = (Inr answer, trace')"
      and "exclude_event_id \<noteq> Some []"
  shows "\<exists>events. be trace (ListEventsBetween tid (start_dt - timedelta_minutes 1)
                     (end_dt + timedelta_minutes 1) 20) = Events events
           \<and> (answer \<noteq> None \<longleftrightarrow>
                 (\<exists>item \<in> set events. spec_blocking start_dt end_dt exclude_event_id item))
           \<and> answer = map_option spec_description
                 (find (spec_blocking start_dt end_dt exclude_event_id) events)
           \<and> (\<forall>item \<in> set events. \<forall>s e.
                 interval_of item = Some (s, e) \<and> (e = start_dt \<or> s = end_dt) \<longrightarrow>
                   \<not> spec_blocking start_dt end_dt exclude_event_id item
                   \<and> answer \<noteq> Some (spec_description item))"
proof -
  from detect_conflict_Inr[OF assms(1)] obtain events where
    ev: "be trace (ListEventsBetween tid (start_dt - timedelta_minutes 1)
            (end_dt + timedelta_minutes 1) 20) = Events events"
    and a: "answer = first_conflict start_dt end_dt exclude_event_id events"
    by blast
  from a have s: "answer = map_option spec_description
                 (find (spec_blocking start_dt end_dt exclude_event_id) events)"
    by (simp only: first_conflict_spec[OF assms(2)] spec_detect_def)
  have i: "answer \<noteq> None \<longleftrightarrow>
                 (\<exists>item \<in> set events. spec_blocking start_dt end_dt exclude_event_id item)"
  proof -
    have "answer \<noteq> None \<longleftrightarrow> find (spec_blocking start_dt end_dt exclude_event_id) events \<noteq> None"
      unfolding s by simp
    also have "\<dots> \<longleftrightarrow> (\<exists>item \<in> set events. spec_blocking start_dt end_dt exclude_event_id item)"
      by (auto simp only: find_None_iff)
    finally show ?thesis .
  qed
  have b: "\<forall>item \<in> set events. \<forall>s e.
                 interval_of item = Some (s, e) \<and> (e = start_dt \<or> s = end_dt) \<longrightarrow>
                   \<not> spec_blocking start_dt end_dt exclude_event_id item
                   \<and> answer \<noteq> Some (spec_description item)"
  proof (intro ballI allI impI conjI)
    fix item s e
    assume h: "interval_of item = Some (s, e) \<and> (e = start_dt \<or> s = end_dt)"
    then show "\<not> spec_blocking start_dt end_dt exclude_event_id item"
      by (intro touching_not_blocking) auto
    from h show "answer \<noteq> Some (spec_description item)"
      unfolding s by (intro touching_not_reported[of item s e]) auto
  qed
  show ?thesis
    by (rule exI[of _ events]) (intro conjI ev i s b)
qed

lemma example_conflict:
  "detect_conflict conflict_backend 7 (at_day 739000 10 0) (at_day 739000 10 30) None [] =
     (Inr (Some (ConflictInfo ''review'' (at_day 739000 10 15, at_day 739000 10 45) ''ev1'')),
      [ListEventsBetween 7 (at_day 739000 9 59) (at_day 739000 10 31) 20])"
  by code_simp

lemma example_conflict_events:
  "conflict_backend [] (ListEventsBetween 7 (at_day 739000 10 0 - timedelta_minutes 1)
       (at_day 739000 10 30 + timedelta_minutes 1) 20) =
     Events [busy_event ''ev0'' ''lunch'' (at_day 739000 9 0) (at_day 739000 10 0),
             busy_event ''ev1'' ''review'' (at_day 739000 10 15) (at_day 739000 10 45),
             busy_event ''ev2'' ''sync'' (at_day 739000 10 20) (at_day 739000 10 40)]"
  by (simp add: conflict_backend_def)

lemma example_interval:
  "interval_of (busy_event i n t1 t2) = Some (t1, t2)"
  by (simp add: interval_of_def busy_event_def parse_google_datetime_def)

theorem detect_conflict_iff_witness:
  "detect_conflict conflict_backend 7 (at_day 739000 10 0) (at_day 739000 10 30) None [] =
     (Inr (Some (ConflictInfo ''review'' (at_day 739000 10 15, at_day 739000 10 45) ''ev1'')),
      [ListEventsBetween 7 (at_day 739000 9 59) (at_day 739000 10 31) 20])
   \<and> (None :: string option) \<noteq> Some []
   \<and> (\<exists>events. conflict_backend [] (ListEventsBetween 7
                    (at_day 739000 10 0 - timedelta_minutes 1)
                    (at_day 739000 10 30 + timedelta_minutes 1) 20) = Events events
         \<and> (\<exists>item \<in> set events.
               spec_blocking (at_day 739000 10 0) (at_day 739000 10 30) None item)
         \<and> (\<exists>item \<in> set events.
               interval_of item = Some (at_day 739000 9 0, at_day 739000 10 0)
               \<and> \<not> spec_blocking (at_day 739000 10 0) (at_day 739000 10 30) None item
               \<and> Some (ConflictInfo ''review'' (at_day 739000 10 15, at_day 739000 10 45) ''ev1'')
                   \<noteq> Some (spec_description item)))"
proof -
  let ?lunch = "busy_event ''ev0'' ''lunch'' (at_day 739000 9 0) (at_day 739000 10 0)"
  let ?answer = "Some (ConflictInfo ''review'' (at_day 739000 10 15, at_day 739000 10 45) ''ev1'')"
  have n: "(None :: string option) \<noteq> Some []" by simp
  from detect_conflict_iff[OF example_conflict n] obtain events where
    ev: "conflict_backend [] (ListEventsBetween 7 (at_day 739000 10 0 - timedelta_minutes 1)
            (at_day 739000 10 30 + timedelta_minutes 1) 20) = Events events"
    and i: "?answer \<noteq> None \<longleftrightarrow>
              (\<exists>item \<in> set events. spec_blocking (at_day 739000 10 0) (at_day 739000 10 30) None item)"
    and b: "\<forall>item \<in> set events. \<forall>s e.
                 interval_of item = Some (s, e) \<and> (e = at_day 739000 10 0 \<or> s = at_day 739000 10 30) \<longrightarrow>
                   \<not> spec_blocking (at_day 739000 10 0) (at_day 739000 10 30) None item
                   \<and> ?answer \<noteq> Some (spec_description item)"
    by blast
  from ev have m: "?lunch \<in> set events"
    unfolding example_conflict_events by auto
  have iv: "interval_of ?lunch = Some (at_day 739000 9 0, at_day 739000 10 0)"
    by (rule example_interval)
  from b m iv have l: "\<not> spec_blocking (at_day 739000 10 0) (at_day 739000 10 30) None ?lunch
                   \<and> ?answer \<noteq> Some (spec_description ?lunch)"
    by blast
  from i have x: "\<exists>item \<in> set events.
      spec_blocking (at_day 739000 10 0) (at_day 739000 10 30) None item"
    by simp
  from m iv l have y: "\<exists>item \<in> set events.
               interval_of item = Some (at_day 739000 9 0, at_day 739000 10 0)
               \<and> \<not> spec_blocking (at_day 739000 10 0) (at_day 739000 10 30) None item
               \<and> ?answer \<noteq> Some (spec_description item)"
    by blast
  from ev x y have "\<exists>events. conflict_backend [] (ListEventsBetween 7
                    (at_day 739000 10 0 - timedelta_minutes 1)
                    (at_day 739000 10 30 + timedelta_minutes 1) 20) = Events events
         \<and> (\<exists>item \<in> set events.
               spec_blocking (at_day 739000 10 0) (at_day 739000 10 30) None item)
         \<and> (\<exists>item \<in> set events.
               interval_of item = Some (at_day 739000 9 0, at_day 739000 10 0)
               \<and> \<not> spec_blocking (at_day 739000 10 0) (at_day 739000 10 30) None item
               \<and> ?answer \<noteq> Some (spec_description item))"
    by blast
  with example_conflict n show ?thesis by blast
qed

subsection \<open>Series planner\<close>

lemma filter_slots_loop_take:
  assumes "1 \<le> limit" "int (length filtered) < limit"
  shows "filter_slots_loop slots allow d limit filtered
           = take (nat limit) (filtered @ filter (\<lambda>s. slot_end s \<le> d \<and> (allow \<or> weekday (slot_start s) < 5)) slots)"
  using assms
proof (induction slots arbitrary: filtered)
  case Nil
  then show ?case by simp
next
  case (Cons slot slots)
  show ?case
  proof (cases "slot_end slot \<le> d \<and> (allow \<or> weekday (slot_start slot) < 5)")
    case False
    then have "filter_slots_loop (slot # slots) allow d limit filtered
        = filter_slots_loop slots allow d limit filtered"
      by auto
    moreover from False have "filter (\<lambda>s. slot_end s \<le> d \<and> (allow \<or> weekday (slot_start s) < 5)) (slot # slots)
        = filter (\<lambda>s. slot_end s \<le> d \<and> (allow \<or> weekday (slot_start s) < 5)) slots"
      by simp
    ultimately show ?thesis
      using Cons.IH[OF Cons.prems] by (simp only:)
  next
    case True
    show ?thesis
    proof (cases "int (length (filtered @ [slot])) \<ge> limit")
      case full: True
      with True have "filter_slots_loop (slot # slots) allow d limit filtered = filtered @ [slot]"
        by (auto simp: Let_def)
      moreover from full Cons.prems have "nat limit = length filtered + 1" by simp
      ultimately show ?thesis using True by simp
    next
      case more: False
      with True have "filter_slots_loop (slot # slots) allow d limit filtered
          = filter_slots_loop slots allow d limit (filtered @ [slot])"
        by (auto simp: Let_def)
      also have "\<dots> = take (nat limit) ((filtered @ [slot]) @
          filter (\<lambda>s. slot_end s \<le> d \<and> (allow \<or> weekday (slot_start s) < 5)) slots)"
        using more Cons.prems by (intro Cons.IH) simp_all
      finally show ?thesis using True by simp
    qed
  qed
qed

lemma filter_slots_take:
  assumes "1 \<le> blocks_needed"
  shows "filter_slots slots (allow_weekends request) (deadline request) blocks_needed
           = take (nat blocks_needed) (filter (spec_keeps request) slots)"
proof -
  have "spec_keeps request = (\<lambda>s. slot_end s \<le> deadline request
          \<and> (allow_weekends request \<or> weekday (slot_start s) < 5))"
    by (auto simp: spec_keeps_def fun_eq_iff)
  with filter_slots_loop_take[OF assms, of "[]" slots "allow_weekends request" "deadline request"]
  show ?thesis using assms by (simp add: filter_slots_def)
qed

text \<open>
  Below \<open>2^53\<close> the float quotient of two positive numbers has the ceiling of the exact
  quotient, or 0 where that is 1.
\<close>

lemma bit_length_bounds:
  "0 < n \<Longrightarrow> 2 ^ (bit_length n - 1) \<le> n \<and> n < 2 ^ bit_length n"
proof (induction n rule: bit_length.induct)
  case (1 n)
  have bl: "bit_length n = Suc (bit_length (n div 2))"
    using 1(2) by (subst bit_length.simps) simp
  show ?case
  proof (cases "n div 2 = 0")
    case True
    with 1(2) have n: "n = 1" by presburger
    show ?thesis unfolding bl by (simp add: n bit_length.simps)
  next
    case False
    with 1(2) have p: "0 < n div 2" by presburger
    from 1(1)[OF _ p] 1(2)
    have ih: "2 ^ (bit_length (n div 2) - 1) \<le> n div 2" "n div 2 < 2 ^ bit_length (n div 2)"
      by simp_all
    have pos: "0 < bit_length (n div 2)"
      using p by (subst bit_length.simps) simp
    then have e: "(2::int) ^ bit_length (n div 2) = 2 * 2 ^ (bit_length (n div 2) - 1)"
      by (cases "bit_length (n div 2)") simp_all
    from ih(1) have "2 * 2 ^ (bit_length (n div 2) - 1) \<le> n" by linarith
    moreover from ih(2) have "n < 2 * 2 ^ bit_length (n div 2)" by linarith
    ultimately show ?thesis unfolding bl using e by simp
  qed
qed

lemma quotient_exponent_lower:
  assumes "0 < a" "0 < b" "0 \<le> quotient_exponent a b"
  shows "b * 2 ^ nat (quotient_exponent a b) \<le> a"
proof -
  let ?la = "bit_length a" and ?lb = "bit_length b"
  let ?k = "int ?la - int ?lb"
  show ?thesis
  proof (cases "b * 2 ^ nat ?k \<le> a * 2 ^ nat (- ?k)")
    case True
    then have e: "quotient_exponent a b = ?k" by (simp add: quotient_exponent_def)
    with assms(3) have "nat (- ?k) = 0" by simp
    with True show ?thesis unfolding e by simp
  next
    case False
    then have e: "quotient_exponent a b = ?k - 1" by (simp add: quotient_exponent_def)
    with assms(3) have k: "1 \<le> ?k" by simp
    from bit_length_bounds[OF assms(1)] have a: "2 ^ (?la - 1) \<le> a" by simp
    from bit_length_bounds[OF assms(2)] have b: "b < 2 ^ ?lb" by simp
    from k have n: "?lb + nat (?k - 1) = ?la - 1" by linarith
    have "b * 2 ^ nat (?k - 1) \<le> 2 ^ ?lb * 2 ^ nat (?k - 1)"
      using b by (intro mult_right_mono) simp_all
    also have "\<dots> = 2 ^ (?la - 1)" unfolding power_add[symmetric] n ..
    also note a
    finally show ?thesis unfolding e .
  qed
qed

lemma round_half_even_le:
  assumes "0 < d" "n \<le> j * d"
  shows "round_half_even n d \<le> j"
proof -
  have q: "n div d \<le> j" using assms
    by (metis div_mult_self2 less_irrefl nonzero_mult_div_cancel_right zdiv_mono1 add.left_neutral div_by_0)
  show ?thesis
  proof (cases "n div d = j")
    case True
    have "n = d * (n div d) + n mod d" by simp
    with True assms(2) have "n mod d \<le> 0" by (simp add: mult.commute)
    with assms(1) have "n mod d = 0" by (simp add: order_antisym)
    with True assms(1) show ?thesis by (simp add: round_half_even_def Let_def)
  next
    case False
    with q have "n div d + 1 \<le> j" by simp
    then show ?thesis by (simp add: round_half_even_def Let_def)
  qed
qed

lemma round_half_even_gt:
  assumes "0 < d" "d < 2 * (n - j * d)"
  shows "j < round_half_even n d"
proof -
  from assms have "j * d \<le> n" by simp
  with assms(1) have q: "j \<le> n div d"
    by (metis div_mult_self2 less_irrefl nonzero_mult_div_cancel_right zdiv_mono1 add.left_neutral div_by_0)
  show ?thesis
  proof (cases "n div d = j")
    case True
    have "n = d * (n div d) + n mod d" by simp
    with True have "n mod d = n - j * d" by (simp add: mult.commute algebra_simps)
    with True assms show ?thesis by (simp add: round_half_even_def Let_def)
  next
    case False
    with q have "j < n div d" by simp
    then show ?thesis by (simp add: round_half_even_def Let_def)
  qed
qed

lemma round_half_even_nonneg:
  assumes "0 < d" "0 \<le> n"
  shows "0 \<le> round_half_even n d"
proof -
  from assms have "0 \<le> n div d" by (simp add: pos_imp_zdiv_nonneg_iff)
  then show ?thesis by (simp add: round_half_even_def Let_def)
qed


lemma ceil_facts:
  fixes a b :: int
  assumes "0 < a" "0 < b"
  defines "k \<equiv> \<lceil>real_of_int a / real_of_int b\<rceil>"
  shows "a \<le> k * b" "(k - 1) * b < a" "1 \<le> k" "k \<le> a"
proof -
  from assms(2) have b: "0 < real_of_int b" by simp
  from ceiling_divide_upper[OF b, of "real_of_int a"]
  have "real_of_int a \<le> real_of_int (k * b)" by (simp add: k_def)
  then show u: "a \<le> k * b" by (simp only: of_int_le_iff)
  from ceiling_divide_lower[OF b, of "real_of_int a"]
  have "real_of_int ((k - 1) * b) < real_of_int a" by (simp add: k_def)
  then show l: "(k - 1) * b < a" by (simp only: of_int_less_iff)
  show "1 \<le> k"
  proof (rule ccontr)
    assume "\<not> 1 \<le> k"
    then have "k \<le> 0" by simp
    with assms(2) have "k * b \<le> 0" by (simp add: mult_le_0_iff)
    with u assms(1) show False by simp
  qed
  show "k \<le> a"
  proof (rule ccontr)
    assume "\<not> k \<le> a"
    then have "a \<le> k - 1" by simp
    moreover from assms(1) have "0 \<le> a" by simp
    ultimately have "a * 1 \<le> (k - 1) * b" using assms(2) by (intro mult_mono) simp_all
    with l show False by simp
  qed
qed

lemma py_ceil_div_exact:
  assumes "0 < a" "a < 2 ^ 53" "0 < b"
  shows "\<exists>c. py_ceil_div a b = Inr c \<and> max 1 c = \<lceil>real_of_int a / real_of_int b\<rceil>"
proof -
  define k where "k = \<lceil>real_of_int a / real_of_int b\<rceil>"
  note kf = ceil_facts[OF assms(1,3), folded k_def]
  define e where "e = quotient_exponent a b"
  define s where "s = max (e - 52) (- 1074)"
  define m where "m = round_half_even (a * 2 ^ nat (- s)) (b * 2 ^ nat s)"
  have ab: "\<bar>a\<bar> = a" "\<bar>b\<bar> = b" "sgn a * sgn b = 1" "a \<noteq> 0" "b \<noteq> 0"
    using assms(1,3) by simp_all
  have unfold: "py_ceil_div a b =
      (if 2 ^ 1024 * 2 ^ nat (- s) \<le> m * 2 ^ nat s then Inl OverflowError
       else Inr (math_ceil (m, s)))"
    by (simp add: py_ceil_div_def py_true_div_def ab Let_def e_def s_def m_def)
  show ?thesis
  proof (cases "0 \<le> s")
    case True
    then have e52: "52 \<le> e" by (simp add: s_def)
    then have e0: "0 \<le> quotient_exponent a b" by (simp add: e_def)
    from quotient_exponent_lower[OF assms(1,3) e0]
    have low: "b * 2 ^ nat e \<le> a" by (simp add: e_def)
    have p: "(2::int) ^ 52 \<le> 2 ^ nat e" using e52 by (intro power_increasing) simp_all
    have "b * 2 ^ 52 \<le> b * 2 ^ nat e" using p assms(3) by (intro mult_left_mono) simp_all
    with low assms(2) have "b * 2 ^ 52 < 2 ^ 53" by linarith
    then have b1: "b = 1" using assms(3) by simp
    have "e = 52"
    proof (rule ccontr)
      assume "e \<noteq> 52"
      with e52 have "53 \<le> nat e" by simp
      then have "(2::int) ^ 53 \<le> 2 ^ nat e" by (intro power_increasing) simp_all
      with low b1 assms(2) show False by simp
    qed
    then have s0: "s = 0" by (simp add: s_def)
    have m: "m = a" by (simp add: m_def s0 b1 round_half_even_def)
    have "a < 2 ^ 1024" using assms(2) by simp
    then have r: "py_ceil_div a b = Inr a"
      unfolding unfold by (simp add: m s0 math_ceil_def)
    have "k = a" by (simp add: k_def b1)
    with r assms(1) show ?thesis unfolding k_def by simp
  next
    case False
    define t where "t = nat (- s)"
    from False have t: "1 \<le> t" "nat s = 0" "nat (- s) = t" by (simp_all add: t_def)
    have m': "m = round_half_even (a * 2 ^ t) b" by (simp add: m_def t)
    have p2: "(0::int) < 2 ^ t" by simp
    have "a * 2 ^ t \<le> (k * 2 ^ t) * b"
      using kf(1) p2 by (simp add: mult.assoc mult.left_commute mult.commute)
    from round_half_even_le[OF assms(3) this] have mle: "m \<le> k * 2 ^ t" by (simp add: m')
    have m0: "0 \<le> m" unfolding m' using assms(1,3) by (intro round_half_even_nonneg) simp_all
    have kt: "k * 2 ^ t \<le> a * 2 ^ t" using kf(4) by (intro mult_right_mono) simp_all
    have at: "a * 2 ^ t < 2 ^ 53 * 2 ^ t" using assms(2) by (intro mult_strict_right_mono) simp_all
    have "(2::int) ^ 53 \<le> 2 ^ 1024" by (intro power_increasing) simp_all
    then have pt: "(2::int) ^ 53 * 2 ^ t \<le> 2 ^ 1024 * 2 ^ t" by (intro mult_right_mono) simp_all
    from mle kt have "m \<le> a * 2 ^ t" by (rule order.trans)
    also note at
    also note pt
    finally have "m < 2 ^ 1024 * 2 ^ t" .
    then have r: "py_ceil_div a b = Inr (- ((- m) div 2 ^ t))"
      unfolding unfold using False by (simp add: t math_ceil_def)
    define c where "c = - ((- m) div 2 ^ t)"
    have "(- k) * 2 ^ t \<le> - m" using mle by simp
    then have "((- k) * 2 ^ t) div 2 ^ t \<le> (- m) div 2 ^ t" by (intro zdiv_mono1) simp_all
    moreover have "((- k) * 2 ^ t) div 2 ^ t = - k"
      by (rule nonzero_mult_div_cancel_right) simp
    ultimately have cle: "c \<le> k" by (simp add: c_def)
    have "(- m) div 2 ^ t \<le> 0 div 2 ^ t" using m0 by (intro zdiv_mono1) simp_all
    then have c0: "0 \<le> c" by (simp add: c_def)
    have "max 1 c = k"
    proof (cases "k = 1")
      case True
      with cle c0 show ?thesis by simp
    next
      case False
      with kf(3) have k2: "2 \<le> k" by simp
      have "1 * b \<le> (k - 1) * b" using k2 assms(3) by (intro mult_right_mono) simp_all
      with kf(2) have ba: "b < a" by simp
      have bt: "b < 2 * 2 ^ t"
      proof (cases "0 < e")
        case False
        then have "s \<le> - 52" by (simp add: s_def)
        then have "52 \<le> t" by (simp add: t_def)
        then have "(2::int) ^ 52 \<le> 2 ^ t" by (intro power_increasing) simp_all
        with ba assms(2) show ?thesis by simp
      next
        case True
        then have e0: "0 \<le> quotient_exponent a b" by (simp add: e_def)
        from quotient_exponent_lower[OF assms(1,3) e0]
        have low: "b * 2 ^ nat e \<le> a" by (simp add: e_def)
        from True have se: "s = e - 52" by (simp add: s_def)
        with \<open>\<not> 0 \<le> s\<close> True have te: "t + nat e = 52" by (simp add: t_def)
        have "(2::int) ^ Suc (t + nat e) = (2 * 2 ^ t) * 2 ^ nat e"
          by (simp add: power_add)
        moreover have "Suc (t + nat e) = 53" using te by simp
        ultimately have eq: "(2::int) ^ 53 = (2 * 2 ^ t) * 2 ^ nat e" by (simp only:)
        have "b * 2 ^ nat e < 2 ^ 53" using low assms(2) by (rule order.strict_trans1)
        then have "b * 2 ^ nat e < (2 * 2 ^ t) * 2 ^ nat e" unfolding eq .
        moreover have "(0::int) < 2 ^ nat e" by simp
        ultimately show ?thesis by (simp only: mult_less_cancel_right_pos)
      qed
      have "1 \<le> a - (k - 1) * b" using kf(2) by simp
      then have "2 * 2 ^ t * 1 \<le> 2 * 2 ^ t * (a - (k - 1) * b)"
        by (intro mult_left_mono) simp_all
      with bt have "b < 2 * (a * 2 ^ t - ((k - 1) * 2 ^ t) * b)"
        by (simp add: algebra_simps)
      from round_half_even_gt[OF assms(3) this] have mgt: "(k - 1) * 2 ^ t < m" by (simp add: m')
      then have "- m \<le> (- k) * 2 ^ t + (2 ^ t - 1)" by (simp add: algebra_simps)
      then have "(- m) div 2 ^ t \<le> ((- k) * 2 ^ t + (2 ^ t - 1)) div 2 ^ t"
        by (intro zdiv_mono1) simp_all
      also have "\<dots> = - k + (2 ^ t - 1) div 2 ^ t"
        by (rule div_mult_self3) simp
      also have "(2 ^ t - 1) div 2 ^ t = (0::int)"
        by (rule div_pos_pos_trivial) simp_all
      finally have "k \<le> c" by (simp add: c_def)
      with cle k2 show ?thesis by simp
    qed
    with r show ?thesis by (simp add: c_def k_def)
  qed
qed

lemma spec_blocks_needed_pos:
  assumes "0 < total_minutes request" "0 < block_minutes request"
  shows "1 \<le> spec_blocks_needed request"
proof -
  from assms have "0 < real_of_int (total_minutes request) / real_of_int (block_minutes request)"
    by simp
  then have "0 < \<lceil>real_of_int (total_minutes request) / real_of_int (block_minutes request)\<rceil>"
    by simp
  then show ?thesis by (simp add: spec_blocks_needed_def)
qed

lemma plan_series_unfold:
  assumes "deadline request > now"
    and "py_ceil_div (total_minutes request) (block_minutes request) = Inr c"
    and "max 1 c = spec_blocks_needed request"
    and "find_slots be (candidate_request now request)
           (max (spec_blocks_needed request * 3) 6) trace = (Inr slots, trace')"
  shows "plan_series be now request trace =
     (Inr \<lparr>preview_request = request,
           blocks = make_blocks (take (nat (spec_blocks_needed request))
                      (filter_slots slots (allow_weekends request) (deadline request)
                         (spec_blocks_needed request))),
           missing_blocks = max 0 (spec_blocks_needed request
              - int (length (filter_slots slots (allow_weekends request) (deadline request)
                         (spec_blocks_needed request)))),
           warnings = (if max 0 (spec_blocks_needed request
              - int (length (filter_slots slots (allow_weekends request) (deadline request)
                         (spec_blocks_needed request)))) \<noteq> 0
             then [FoundOnly (spec_blocks_needed request - max 0 (spec_blocks_needed request
              - int (length (filter_slots slots (allow_weekends request) (deadline request)
                         (spec_blocks_needed request))))) (spec_blocks_needed request)]
             else [])\<rparr>, trace')"
proof -
  from assms(1) have d: "\<not> deadline request \<le> now" by simp
  show ?thesis
    unfolding plan_series_def
    by (simp only: d assms(2) assms(3) if_False sum.case Let_def
          assms(4)[unfolded candidate_request_def] prod.case)
qed

text \<open>
  Claim C3. For a request with positive \<^verbatim>\<open>total_minutes\<close> and \<^verbatim>\<open>block_minutes\<close>, with
  \<^verbatim>\<open>total_minutes\<close> below \<open>2^53\<close> (up to where the float division of the code is exact
  enough), and a deadline after the current time, \<^verbatim>\<open>plan_series\<close> takes the ceiling of the
  quotient for the number of blocks needed (3 for 130 and 60 minutes), asks \<^verbatim>\<open>find_slots\<close> for three
  times as many slots, and at least 6, of \<^verbatim>\<open>block_minutes\<close> between now and the deadline,
  keeps the slots that end at or before the deadline and, where weekends are not allowed,
  start on a weekday, and cuts the list to the number needed. When the search returns, it
  returns a preview also when too few slots are kept: \<^verbatim>\<open>missing_blocks\<close> is then the
  number needed minus the number kept, and there is one warning of the shortfall.
\<close>

theorem plan_series_preview:
  assumes "now < deadline request"
      and "0 < total_minutes request" and "0 < block_minutes request"
      and "total_minutes request < 2 ^ 53"
      and "find_slots be (candidate_request now request)
             (max (spec_blocks_needed request * 3) 6) trace = (Inr slots, trace')"
  shows "\<exists>preview. plan_series be now request trace = (Inr preview, trace')
           \<and> preview_request preview = request
           \<and> blocks preview = make_blocks (take (nat (spec_blocks_needed request))
                                   (filter (spec_keeps request) slots))
           \<and> missing_blocks preview = max 0 (spec_blocks_needed request
                                   - int (length (filter (spec_keeps request) slots)))
           \<and> (int (length (filter (spec_keeps request) slots)) < spec_blocks_needed request
                \<longrightarrow> missing_blocks preview = spec_blocks_needed request
                       - int (length (filter (spec_keeps request) slots))
                    \<and> warnings preview =
                        [FoundOnly (int (length (filter (spec_keeps request) slots)))
                           (spec_blocks_needed request)]
                    \<and> blocks preview = make_blocks (filter (spec_keeps request) slots))
           \<and> (spec_blocks_needed request \<le> int (length (filter (spec_keeps request) slots))
                \<longrightarrow> missing_blocks preview = 0 \<and> warnings preview = []
                    \<and> int (length (blocks preview)) = spec_blocks_needed request)"
proof -
  let ?bn = "spec_blocks_needed request"
  let ?F = "filter (spec_keeps request) slots"
  have bn: "1 \<le> ?bn" using assms(2,3) by (rule spec_blocks_needed_pos)
  from py_ceil_div_exact[OF assms(2) assms(4) assms(3)]
  obtain c where c: "py_ceil_div (total_minutes request) (block_minutes request) = Inr c"
    and mc: "max 1 c = ?bn"
    by (auto simp: spec_blocks_needed_def)
  have fs: "filter_slots slots (allow_weekends request) (deadline request) ?bn = take (nat ?bn) ?F"
    using bn by (rule filter_slots_take)
  have len: "int (length (take (nat ?bn) ?F)) = min ?bn (int (length ?F))"
    using bn by simp
  have mis: "max 0 (?bn - int (length (take (nat ?bn) ?F))) = max 0 (?bn - int (length ?F))"
    unfolding len by simp
  note p = plan_series_unfold[OF assms(1) c mc assms(5), unfolded fs mis take_take min.idem]
  have lm: "length (make_blocks xs) = length xs" for xs
    by (simp add: make_blocks_def)
  show ?thesis
    unfolding p
    by (rule exI, intro conjI, rule refl) (use bn in \<open>auto simp: lm\<close>)
qed

lemma example_plan_slots:
  "find_slots example_backend (candidate_request (at_day 739000 0 0) example_plan) 9 [] =
     (Inr [\<lparr>slot_start = at_day 739000 9 0, slot_end = at_day 739000 10 0\<rparr>,
           \<lparr>slot_start = at_day 739001 9 0, slot_end = at_day 739001 10 0\<rparr>,
           \<lparr>slot_start = at_day 739002 9 0, slot_end = at_day 739002 10 0\<rparr>,
           \<lparr>slot_start = at_day 739003 9 0, slot_end = at_day 739003 10 0\<rparr>],
      [ListEventsBetween 7 (at_day 739000 0 0) (at_day 739003 18 0) 250])"
  by code_simp

lemma example_plan_needed: "spec_blocks_needed example_plan = 3"
  by (simp add: spec_blocks_needed_def example_plan_def)

lemma example_plan_kept:
  "filter (spec_keeps example_plan)
      [\<lparr>slot_start = at_day 739000 9 0, slot_end = at_day 739000 10 0\<rparr>,
       \<lparr>slot_start = at_day 739001 9 0, slot_end = at_day 739001 10 0\<rparr>,
       \<lparr>slot_start = at_day 739002 9 0, slot_end = at_day 739002 10 0\<rparr>,
       \<lparr>slot_start = at_day 739003 9 0, slot_end = at_day 739003 10 0\<rparr>]
   = [\<lparr>slot_start = at_day 739000 9 0, slot_end = at_day 739000 10 0\<rparr>,
      \<lparr>slot_start = at_day 739001 9 0, slot_end = at_day 739001 10 0\<rparr>]"
  by (simp add: spec_keeps_def example_plan_def weekday_def date_of_def time_defs)

theorem plan_series_preview_witness:
  "at_day 739000 0 0 < deadline example_plan
   \<and> 0 < total_minutes example_plan \<and> 0 < block_minutes example_plan
   \<and> total_minutes example_plan < 2 ^ 53
   \<and> spec_blocks_needed example_plan = 3
   \<and> (\<exists>preview. plan_series example_backend (at_day 739000 0 0) example_plan [] =
          (Inr preview, [ListEventsBetween 7 (at_day 739000 0 0) (at_day 739003 18 0) 250])
        \<and> missing_blocks preview = 1
        \<and> warnings preview = [FoundOnly 2 3]
        \<and> blocks preview =
            [\<lparr>block_index = 0, block_label = 1,
              block_start = at_day 739000 9 0, block_end = at_day 739000 10 0\<rparr>,
             \<lparr>block_index = 1, block_label = 2,
              block_start = at_day 739001 9 0, block_end = at_day 739001 10 0\<rparr>])"
proof -
  have h1: "at_day 739000 0 0 < deadline example_plan"
    by (simp add: example_plan_def time_defs)
  have h2: "0 < total_minutes example_plan" by (simp add: example_plan_def)
  have h3: "0 < block_minutes example_plan" by (simp add: example_plan_def)
  have hb: "total_minutes example_plan < 2 ^ 53" by (simp add: example_plan_def)
  have h4: "find_slots example_backend (candidate_request (at_day 739000 0 0) example_plan)
             (max (spec_blocks_needed example_plan * 3) 6) [] =
     (Inr [\<lparr>slot_start = at_day 739000 9 0, slot_end = at_day 739000 10 0\<rparr>,
           \<lparr>slot_start = at_day 739001 9 0, slot_end = at_day 739001 10 0\<rparr>,
           \<lparr>slot_start = at_day 739002 9 0, slot_end = at_day 739002 10 0\<rparr>,
           \<lparr>slot_start = at_day 739003 9 0, slot_end = at_day 739003 10 0\<rparr>],
      [ListEventsBetween 7 (at_day 739000 0 0) (at_day 739003 18 0) 250])"
    using example_plan_slots by (simp add: example_plan_needed)
  note t = plan_series_preview[OF h1 h2 h3 hb h4, unfolded example_plan_kept example_plan_needed]
  have b: "make_blocks [\<lparr>slot_start = at_day 739000 9 0, slot_end = at_day 739000 10 0\<rparr>,
      \<lparr>slot_start = at_day 739001 9 0, slot_end = at_day 739001 10 0\<rparr>]
    = [\<lparr>block_index = 0, block_label = 1,
              block_start = at_day 739000 9 0, block_end = at_day 739000 10 0\<rparr>,
             \<lparr>block_index = 1, block_label = 2,
              block_start = at_day 739001 9 0, block_end = at_day 739001 10 0\<rparr>]"
    by (simp add: make_blocks_def)
  from t have "\<exists>preview. plan_series example_backend (at_day 739000 0 0) example_plan [] =
          (Inr preview, [ListEventsBetween 7 (at_day 739000 0 0) (at_day 739003 18 0) 250])
        \<and> missing_blocks preview = 1
        \<and> warnings preview = [FoundOnly 2 3]
        \<and> blocks preview =
            [\<lparr>block_index = 0, block_label = 1,
              block_start = at_day 739000 9 0, block_end = at_day 739000 10 0\<rparr>,
             \<lparr>block_index = 1, block_label = 2,
              block_start = at_day 739001 9 0, block_end = at_day 739001 10 0\<rparr>]"
    by (simp add: b) blast
  with h1 h2 h3 hb example_plan_needed show ?thesis by blast
qed

text \<open>
  The bound is where the float division stops being exact: \<open>2^53 + 1\<close> minutes in blocks
  of one minute are counted as \<open>2^53\<close> blocks.
\<close>

lemma py_ceil_div_beyond: "py_ceil_div (2 ^ 53 + 1) 1 = Inr (2 ^ 53)"
  by code_simp

text \<open>
  Claim C9. A request whose deadline is at or before the current time makes
  \<^verbatim>\<open>plan_series\<close> raise its \<^verbatim>\<open>ValueError\<close> at once: no call reaches the calendar or the
  store (the trace of calls is returned as it was), and no preview is returned.
\<close>

theorem plan_series_deadline_passed:
  assumes "deadline request \<le> now"
  shows "plan_series be now request trace = (Inl (ValueError deadline_passed), trace)"
  using assms by (simp add: plan_series_def)

theorem plan_series_deadline_passed_witness:
  "deadline example_plan \<le> at_day 739003 18 0
   \<and> plan_series example_backend (at_day 739003 18 0) example_plan []
        = (Inl (ValueError deadline_passed), [])"
proof -
  have h: "deadline example_plan \<le> at_day 739003 18 0" by (simp add: example_plan_def)
  from plan_series_deadline_passed[OF h] h show ?thesis by simp
qed

text \<open>
  Claim C10. For a preview with no block, \<^verbatim>\<open>commit_plan\<close> raises its \<^verbatim>\<open>ValueError\<close> before
  it looks the user up, creates the plan record, creates any calendar event or the
  deadline marker: the trace of calls to the store and the calendar is returned as it was.
\<close>

theorem commit_plan_no_blocks:
  assumes "blocks preview = []"
  shows "commit_plan be preview trace = (Inl (ValueError no_blocks_to_create), trace)"
  using assms by (simp add: commit_plan_def)

theorem commit_plan_no_blocks_witness:
  "blocks \<lparr>preview_request = example_plan, blocks = [], missing_blocks = 3,
           warnings = [FoundOnly 0 3]\<rparr> = []
   \<and> commit_plan example_backend
        \<lparr>preview_request = example_plan, blocks = [], missing_blocks = 3,
         warnings = [FoundOnly 0 3]\<rparr> []
      = (Inl (ValueError no_blocks_to_create), [])"
proof -
  have h: "blocks \<lparr>preview_request = example_plan, blocks = [], missing_blocks = 3,
           warnings = [FoundOnly 0 3]\<rparr> = []" by simp
  from commit_plan_no_blocks[OF h] h show ?thesis by simp
qed

subsection \<open>Event updates\<close>

lemma parse_google_instant:
  "parse_google_datetime payload = map_option instant (parse_google_aware payload)"
  by (simp add: parse_google_datetime_def parse_google_aware_def
        split: option.splits iso_string.splits)

lemma busy_event_aware:
  "parse_google_aware (event_start (busy_event i n t1 t2)) = Some (in_zone t1)"
  "parse_google_aware (event_end (busy_event i n t1 t2)) = Some (in_zone t2)"
  by (simp_all add: parse_google_aware_def busy_event_def in_zone_def)

lemma new_interval_shift:
  assumes "parse_google_aware (event_start ev) = Some s"
      and "parse_google_aware (event_end ev) = Some e"
      and "ud_start p = None" "ud_end p = None" "\<not> truthy_int (ud_duration_minutes p)"
      and "ud_shift_minutes p = Some m" "m \<noteq> 0"
  shows "new_interval now ev p
           = (Some (add_timedelta s (timedelta_minutes m)),
              Some (add_timedelta e (timedelta_minutes m)))"
  using assms
  by (cases "ud_duration_minutes p") (simp_all add: new_interval_def truthy_int_def)


lemma update_event_trace:
  "update_event be tid eid kwargs trace = (r, trace')
   \<Longrightarrow> trace' = trace @ [UpdateEvent tid eid kwargs]"
  by (cases "be trace (UpdateEvent tid eid kwargs)") (auto simp: update_event_def call_def)


lemma apply_event_update_unchecked:
  assumes "new_interval now ev upd = (new_start, new_end)"
      and "\<not> runs_conflict_check new_start new_end upd opts"
  shows "apply_event_update be now tid eid ev upd opts trace
           = update_event be tid eid (update_kwargs new_start new_end upd opts) trace"
  using assms by (simp add: apply_event_update_def)

lemma apply_event_update_checked:
  assumes "new_interval now ev upd = (Some ns, Some ne)"
      and "runs_conflict_check (Some ns) (Some ne) upd opts"
  shows "apply_event_update be now tid eid ev upd opts trace
           = (case detect_conflict be tid (instant ns) (instant ne) (Some eid) trace of
                (Inl err, trace1) \<Rightarrow> (Inl err, trace1)
              | (Inr (Some conflict), trace1) \<Rightarrow> (Inl (UpdateConflictDetected conflict), trace1)
              | (Inr None, trace1) \<Rightarrow>
                  update_event be tid eid (update_kwargs (Some ns) (Some ne) upd opts) trace1)"
  using assms by (simp add: apply_event_update_def)

lemma apply_event_update_Inr:
  assumes "apply_event_update be now tid eid ev upd opts trace = (Inr r, trace')"
      and "new_interval now ev upd = (new_start, new_end)"
  shows "\<exists>pre. trace' = pre @ [UpdateEvent tid eid (update_kwargs new_start new_end upd opts)]"
proof (cases "runs_conflict_check new_start new_end upd opts")
  case False
  from assms(1)[unfolded apply_event_update_unchecked[OF assms(2) False]]
  show ?thesis by (blast dest: update_event_trace)
next
  case True
  then obtain ns ne where n: "new_start = Some ns" "new_end = Some ne"
    by (auto simp: runs_conflict_check_def)
  obtain d trace1 where d: "detect_conflict be tid (instant ns) (instant ne) (Some eid) trace = (d, trace1)"
    by (cases "detect_conflict be tid (instant ns) (instant ne) (Some eid) trace")
  from assms(1)[unfolded apply_event_update_checked[OF assms(2)[unfolded n] True[unfolded n]] d]
  have "update_event be tid eid (update_kwargs (Some ns) (Some ne) upd opts) trace1 = (Inr r, trace')"
    by (auto split: sum.splits option.splits)
  then show ?thesis unfolding n by (blast dest: update_event_trace)
qed

text \<open>
  Claim C5. For an event with a start and an end, a patch that shifts by +60 minutes (no
  \<^verbatim>\<open>start\<close>, no \<^verbatim>\<open>end\<close>, no change of duration) gives the interval moved by one hour,
  and a patch that shifts by -60 minutes, applied to the moved event, in whatever UTC
  offset that event is stored, gives the original start and end again; whenever
  \<^verbatim>\<open>_apply_event_update\<close> returns an updated event, these are the start and end it has
  written to the backend.
\<close>

theorem shift_round_trip:
  assumes "parse_google_aware (event_start original) = Some s"
      and "parse_google_aware (event_end original) = Some e"
      and "ud_start later = None" "ud_end later = None"
          "\<not> truthy_int (ud_duration_minutes later)" "ud_shift_minutes later = Some 60"
      and "ud_start earlier = None" "ud_end earlier = None"
          "\<not> truthy_int (ud_duration_minutes earlier)" "ud_shift_minutes earlier = Some (- 60)"
      and "parse_google_aware (event_start moved) = Some s'"
      and "parse_google_aware (event_end moved) = Some e'"
      and "instant s' = instant s + timedelta_minutes 60"
      and "instant e' = instant e + timedelta_minutes 60"
  shows "new_interval now1 original later
           = (Some (add_timedelta s (timedelta_minutes 60)),
              Some (add_timedelta e (timedelta_minutes 60)))
       \<and> new_interval now2 moved earlier
           = (Some (s'\<lparr>instant := instant s\<rparr>), Some (e'\<lparr>instant := instant e\<rparr>))
       \<and> (\<forall>be tid eid opts trace r trace'.
            apply_event_update be now1 tid eid original later opts trace = (Inr r, trace') \<longrightarrow>
              (\<exists>pre. trace' = pre @ [UpdateEvent tid eid
                 (update_kwargs (Some (add_timedelta s (timedelta_minutes 60)))
                    (Some (add_timedelta e (timedelta_minutes 60))) later opts)]))
       \<and> (\<forall>be tid eid opts trace r trace'.
            apply_event_update be now2 tid eid moved earlier opts trace = (Inr r, trace') \<longrightarrow>
              (\<exists>pre. trace' = pre @ [UpdateEvent tid eid
                 (update_kwargs (Some (s'\<lparr>instant := instant s\<rparr>))
                    (Some (e'\<lparr>instant := instant e\<rparr>)) earlier opts)]))"
proof -
  have 1: "new_interval now1 original later
           = (Some (add_timedelta s (timedelta_minutes 60)),
              Some (add_timedelta e (timedelta_minutes 60)))"
    using assms(1-6) by (intro new_interval_shift) simp_all
  have "new_interval now2 moved earlier
           = (Some (add_timedelta s' (timedelta_minutes (- 60))),
              Some (add_timedelta e' (timedelta_minutes (- 60))))"
    using assms(7-12) by (intro new_interval_shift) simp_all
  moreover have "add_timedelta s' (timedelta_minutes (- 60)) = s'\<lparr>instant := instant s\<rparr>"
    using assms(13) by (simp add: add_timedelta_def timedelta_minutes_def)
  moreover have "add_timedelta e' (timedelta_minutes (- 60)) = e'\<lparr>instant := instant e\<rparr>"
    using assms(14) by (simp add: add_timedelta_def timedelta_minutes_def)
  ultimately have 2: "new_interval now2 moved earlier
           = (Some (s'\<lparr>instant := instant s\<rparr>), Some (e'\<lparr>instant := instant e\<rparr>))"
    by (simp only:)
  from 1 2 show ?thesis
    by (intro conjI allI impI) (simp, simp, (erule apply_event_update_Inr, assumption)+)
qed

lemma shift_there:
  "apply_event_update echo_backend (at_day 739000 8 0) 7 ''ev9'' standup
      (shift_patch 60) no_options [] =
    (Inr moved_standup,
     [ListEventsBetween 7 (at_day 739000 10 59) (at_day 739000 11 31) 20,
      UpdateEvent 7 ''ev9''
        (update_kwargs (Some (in_zone (at_day 739000 11 0))) (Some (in_zone (at_day 739000 11 30)))
           (shift_patch 60) no_options)])"
  by code_simp

lemma shift_back:
  "apply_event_update echo_backend (at_day 739000 8 0) 7 ''ev9'' moved_standup
      (shift_patch (- 60)) no_options
      [ListEventsBetween 7 (at_day 739000 10 59) (at_day 739000 11 31) 20,
       UpdateEvent 7 ''ev9''
         (update_kwargs (Some (in_zone (at_day 739000 11 0))) (Some (in_zone (at_day 739000 11 30)))
            (shift_patch 60) no_options)] =
    (Inr standup,
     [ListEventsBetween 7 (at_day 739000 10 59) (at_day 739000 11 31) 20,
      UpdateEvent 7 ''ev9''
        (update_kwargs (Some (in_zone (at_day 739000 11 0))) (Some (in_zone (at_day 739000 11 30)))
           (shift_patch 60) no_options),
      ListEventsBetween 7 (at_day 739000 9 59) (at_day 739000 10 31) 20,
      UpdateEvent 7 ''ev9''
        (update_kwargs (Some (in_zone (at_day 739000 10 0))) (Some (in_zone (at_day 739000 10 30)))
           (shift_patch (- 60)) no_options)])"
  by code_simp

theorem shift_round_trip_witness:
  "parse_google_aware (event_start standup) = Some (in_zone (at_day 739000 10 0))
   \<and> parse_google_aware (event_end standup) = Some (in_zone (at_day 739000 10 30))
   \<and> ud_start (shift_patch 60) = None \<and> ud_end (shift_patch 60) = None
   \<and> \<not> truthy_int (ud_duration_minutes (shift_patch 60))
   \<and> ud_shift_minutes (shift_patch 60) = Some 60
   \<and> ud_start (shift_patch (- 60)) = None \<and> ud_end (shift_patch (- 60)) = None
   \<and> \<not> truthy_int (ud_duration_minutes (shift_patch (- 60)))
   \<and> ud_shift_minutes (shift_patch (- 60)) = Some (- 60)
   \<and> parse_google_aware (event_start moved_standup) = Some (in_zone (at_day 739000 11 0))
   \<and> parse_google_aware (event_end moved_standup) = Some (in_zone (at_day 739000 11 30))
   \<and> instant (in_zone (at_day 739000 11 0))
       = instant (in_zone (at_day 739000 10 0)) + timedelta_minutes 60
   \<and> instant (in_zone (at_day 739000 11 30))
       = instant (in_zone (at_day 739000 10 30)) + timedelta_minutes 60
   \<and> fst (apply_event_update echo_backend (at_day 739000 8 0) 7 ''ev9'' standup
            (shift_patch 60) no_options []) = Inr moved_standup
   \<and> new_interval (at_day 739000 8 0) standup (shift_patch 60)
       = (Some (in_zone (at_day 739000 11 0)), Some (in_zone (at_day 739000 11 30)))
   \<and> new_interval (at_day 739000 8 0) moved_standup (shift_patch (- 60))
       = (Some (in_zone (at_day 739000 10 0)), Some (in_zone (at_day 739000 10 30)))
   \<and> (\<exists>pre. [ListEventsBetween 7 (at_day 739000 10 59) (at_day 739000 11 31) 20,
      UpdateEvent 7 ''ev9''
        (update_kwargs (Some (in_zone (at_day 739000 11 0))) (Some (in_zone (at_day 739000 11 30)))
           (shift_patch 60) no_options),
      ListEventsBetween 7 (at_day 739000 9 59) (at_day 739000 10 31) 20,
      UpdateEvent 7 ''ev9''
        (update_kwargs (Some (in_zone (at_day 739000 10 0))) (Some (in_zone (at_day 739000 10 30)))
           (shift_patch (- 60)) no_options)]
       = pre @ [UpdateEvent 7 ''ev9''
                  (update_kwargs (Some (in_zone (at_day 739000 10 0)))
                     (Some (in_zone (at_day 739000 10 30))) (shift_patch (- 60)) no_options)])"
proof -
  have h1: "parse_google_aware (event_start standup) = Some (in_zone (at_day 739000 10 0))"
    "parse_google_aware (event_end standup) = Some (in_zone (at_day 739000 10 30))"
    by (simp_all add: standup_def busy_event_aware)
  have h2: "ud_start (shift_patch 60) = None" "ud_end (shift_patch 60) = None"
    "\<not> truthy_int (ud_duration_minutes (shift_patch 60))"
    "ud_shift_minutes (shift_patch 60) = Some 60"
    by (simp_all add: shift_patch_def no_patch_def truthy_int_def)
  have h3: "ud_start (shift_patch (- 60)) = None" "ud_end (shift_patch (- 60)) = None"
    "\<not> truthy_int (ud_duration_minutes (shift_patch (- 60)))"
    "ud_shift_minutes (shift_patch (- 60)) = Some (- 60)"
    by (simp_all add: shift_patch_def no_patch_def truthy_int_def)
  have h4: "parse_google_aware (event_start moved_standup) = Some (in_zone (at_day 739000 11 0))"
    "parse_google_aware (event_end moved_standup) = Some (in_zone (at_day 739000 11 30))"
    by (simp_all add: moved_standup_def busy_event_aware)
  have h5: "instant (in_zone (at_day 739000 11 0))
       = instant (in_zone (at_day 739000 10 0)) + timedelta_minutes 60"
    "instant (in_zone (at_day 739000 11 30))
       = instant (in_zone (at_day 739000 10 30)) + timedelta_minutes 60"
    by (simp_all add: in_zone_def time_defs)
  have e1: "add_timedelta (in_zone (at_day 739000 10 0)) (timedelta_minutes 60)
              = in_zone (at_day 739000 11 0)"
    "add_timedelta (in_zone (at_day 739000 10 30)) (timedelta_minutes 60)
              = in_zone (at_day 739000 11 30)"
    by (simp_all add: add_timedelta_def in_zone_def time_defs)
  have e2: "(in_zone (at_day 739000 11 0))\<lparr>instant := instant (in_zone (at_day 739000 10 0))\<rparr>
              = in_zone (at_day 739000 10 0)"
    "(in_zone (at_day 739000 11 30))\<lparr>instant := instant (in_zone (at_day 739000 10 30))\<rparr>
              = in_zone (at_day 739000 10 30)"
    by (simp_all add: in_zone_def)
  note t = shift_round_trip[OF h1 h2 h3 h4 h5, of "at_day 739000 8 0" "at_day 739000 8 0",
             unfolded e1 e2]
  from t have a: "new_interval (at_day 739000 8 0) standup (shift_patch 60)
       = (Some (in_zone (at_day 739000 11 0)), Some (in_zone (at_day 739000 11 30)))"
    and b: "new_interval (at_day 739000 8 0) moved_standup (shift_patch (- 60))
       = (Some (in_zone (at_day 739000 10 0)), Some (in_zone (at_day 739000 10 30)))"
    by blast+
  from t shift_back have c: "\<exists>pre. [ListEventsBetween 7 (at_day 739000 10 59) (at_day 739000 11 31) 20,
      UpdateEvent 7 ''ev9''
        (update_kwargs (Some (in_zone (at_day 739000 11 0))) (Some (in_zone (at_day 739000 11 30)))
           (shift_patch 60) no_options),
      ListEventsBetween 7 (at_day 739000 9 59) (at_day 739000 10 31) 20,
      UpdateEvent 7 ''ev9''
        (update_kwargs (Some (in_zone (at_day 739000 10 0))) (Some (in_zone (at_day 739000 10 30)))
           (shift_patch (- 60)) no_options)]
       = pre @ [UpdateEvent 7 ''ev9''
                  (update_kwargs (Some (in_zone (at_day 739000 10 0)))
                     (Some (in_zone (at_day 739000 10 30))) (shift_patch (- 60)) no_options)]"
    by blast
  have d: "fst (apply_event_update echo_backend (at_day 739000 8 0) 7 ''ev9'' standup
            (shift_patch 60) no_options []) = Inr moved_standup"
    by (simp add: shift_there)
  from h1 h2 h3 h4 h5 a b c d show ?thesis by blast
qed

text \<open>
  An event stored with another UTC offset keeps it: the stand-up below is stored three
  hours behind the configured zone, where it begins at 22:00 of day 738999. A patch that
  gives today's 09:00 as the start puts the start at 09:00 of that day on the clock of the
  stored string, which is noon of day 738999 in the configured zone.
\<close>

lemma absolute_start_other_offset:
  "new_interval (at_day 739005 8 0)
     (standup\<lparr>event_start := \<lparr>dateTime = Some (IsoAt (at_day 739000 1 0) (- 3 * usec_per_hour)),
                                date = None\<rparr>,
              event_end := \<lparr>dateTime = Some (IsoAt (at_day 739000 1 30) (- 3 * usec_per_hour)),
                              date = None\<rparr>\<rparr>)
     (no_patch\<lparr>ud_start := Some (Iso (at_day 739005 9 0))\<rparr>)
   = (Some \<lparr>instant = at_day 738999 12 0, ahead = - 3 * usec_per_hour\<rparr>,
      Some \<lparr>instant = at_day 738999 12 30, ahead = - 3 * usec_per_hour\<rparr>)"
  by code_simp

text \<open>A category is looked up in lower case.\<close>

lemma category_in_capitals:
  "color_id_from_category (Some ''Work'') = Some ''6''
   \<and> color_id_from_category (Some ''work'') = Some ''6''
   \<and> color_id_from_category (Some ''walk'') = None"
  by code_simp

lemma runs_conflict_check_iff:
  "runs_conflict_check new_start new_end upd opts \<longleftrightarrow>
     \<not> ignore_conflicts opts \<and> new_start \<noteq> None \<and> new_end \<noteq> None"
  by (cases "ud_shift_minutes upd") (auto simp: runs_conflict_check_def truthy_int_def)

lemma update_kwargs_ignore:
  "update_kwargs ns ne upd (plan_options plan True) = update_kwargs ns ne upd (plan_options plan False)"
  by (simp add: update_kwargs_def plan_options_def)

lemma say_fields [simp]:
  "user (say r conv) = user conv" "calls (say r conv) = calls conv"
  "replies (say r conv) = replies conv @ [r]"
  by (simp_all add: say_def)


lemma pending_untouched [simp]:
  "pending_update_conflict (set_last_event_context ud a b) = pending_update_conflict ud"
  "pending_update_conflict (set_last_event_query ud q) = pending_update_conflict ud"
  "pending_conflict (set_last_event_context ud a b) = pending_conflict ud"
  "pending_conflict (set_last_event_query ud q) = pending_conflict ud"
  by (simp_all add: set_last_event_context_def set_last_event_query_def)

lemma apply_from_pending_calls:
  assumes "new_interval now (puc_original_event payload) (patch (puc_update payload)) = (ns, ne)"
  shows "calls (apply_update_from_pending_conflict be now tid payload conv)
           = calls conv @ [UpdateEvent tid (puc_event_id payload)
               (update_kwargs ns ne (patch (puc_update payload))
                  (plan_options (puc_update payload) False))]
       \<and> pending_update_conflict (user (apply_update_from_pending_conflict be now tid payload conv))
           = pending_update_conflict (user conv)
       \<and> pending_conflict (user (apply_update_from_pending_conflict be now tid payload conv))
           = pending_conflict (user conv)"
proof -
  have n: "\<not> runs_conflict_check ns ne (patch (puc_update payload))
              (plan_options (puc_update payload) True)"
    by (simp add: runs_conflict_check_iff plan_options_def)
  obtain r calls1 where u: "update_event be tid (puc_event_id payload)
      (update_kwargs ns ne (patch (puc_update payload)) (plan_options (puc_update payload) True))
      (calls conv) = (r, calls1)"
    by (cases "update_event be tid (puc_event_id payload)
      (update_kwargs ns ne (patch (puc_update payload)) (plan_options (puc_update payload) True))
      (calls conv)")
  from update_event_trace[OF u] have c: "calls1 = calls conv @ [UpdateEvent tid (puc_event_id payload)
               (update_kwargs ns ne (patch (puc_update payload))
                  (plan_options (puc_update payload) False))]"
    by (simp add: update_kwargs_ignore)
  show ?thesis
    unfolding apply_update_from_pending_conflict_def Let_def
      apply_event_update_unchecked[OF assms n] u
    by (cases r) (simp_all add: c)
qed




text \<open>
  A patch with a start of its own is placed by the day on which it is applied. The patch
  below gives 10:15 of day 739005: applied on that day to the stand-up of day 739000 it
  moves the stand-up to 10:15 of its own day, and applied on the day after it moves the
  stand-up to day 739005.
\<close>

lemma confirmed_on_another_day:
  "new_interval (at_day 739005 8 0) standup (no_patch\<lparr>ud_start := Some (Iso (at_day 739005 10 15))\<rparr>)
     = (Some (in_zone (at_day 739000 10 15)), Some (in_zone (at_day 739000 10 45)))
   \<and> new_interval (at_day 739006 8 0) standup (no_patch\<lparr>ud_start := Some (Iso (at_day 739005 10 15))\<rparr>)
     = (Some (in_zone (at_day 739005 10 15)), Some (in_zone (at_day 739005 10 45)))"
  by code_simp







subsection \<open>Pending confirmations\<close>

lemma create_keeps_pending:
  "pending_conflict (user (create_event_with_payload be tid draft conv)) = pending_conflict (user conv)
   \<and> pending_update_conflict (user (create_event_with_payload be tid draft conv))
       = pending_update_conflict (user conv)"
  by (cases "be (calls conv) (CreateEvent tid draft)")
     (simp_all add: create_event_with_payload_def call_def Let_def)

lemma apply_from_pending_keeps:
  "pending_conflict (user (apply_update_from_pending_conflict be now tid payload conv))
       = pending_conflict (user conv)
   \<and> pending_update_conflict (user (apply_update_from_pending_conflict be now tid payload conv))
       = pending_update_conflict (user conv)"
proof -
  obtain ns ne where "new_interval now (puc_original_event payload) (patch (puc_update payload)) = (ns, ne)"
    by (cases "new_interval now (puc_original_event payload) (patch (puc_update payload))")
  from apply_from_pending_calls[OF this] show ?thesis by blast
qed

lemma conflict_cancel_clears:
  "\<exists>conv'. handle_callback_query be now tid ConflictCancel conv = Inr conv'
     \<and> pending_conflict (user conv') = None \<and> pending_update_conflict (user conv') = None"
  by (simp add: handle_callback_query_def pop_pending_create_conflict_def
        pop_pending_update_conflict_def)

lemma conflict_confirm_consumes:
  "\<exists>conv'. handle_callback_query be now tid ConflictConfirm conv = Inr conv'
     \<and> pending_conflict (user conv') = None
     \<and> pending_update_conflict (user conv')
         = (if pending_conflict (user conv) = None then None
            else pending_update_conflict (user conv))"
proof (cases "pending_conflict (user conv)")
  case (Some payload)
  then have "handle_callback_query be now tid ConflictConfirm conv
      = Inr (create_event_from_pending be tid payload
               (say CreatingEvent (conv\<lparr>user := (user conv)\<lparr>pending_conflict := None\<rparr>\<rparr>)))"
    by (simp add: handle_callback_query_def pop_pending_create_conflict_def)
  with Some show ?thesis
    by (simp add: create_event_from_pending_def create_keeps_pending)
next
  case None
  show ?thesis
  proof (cases "pending_update_conflict (user conv)")
    case n: None
    with None show ?thesis
      by (simp add: handle_callback_query_def pop_pending_create_conflict_def
            pop_pending_update_conflict_def)
  next
    case (Some payload)
    with None have "handle_callback_query be now tid ConflictConfirm conv
      = Inr (apply_update_from_pending_conflict be now tid payload
               (say Updating (conv\<lparr>user := (user conv)\<lparr>pending_conflict := None,
                   pending_update_conflict := None\<rparr>\<rparr>)))"
      by (simp add: handle_callback_query_def pop_pending_create_conflict_def
            pop_pending_update_conflict_def)
    with None show ?thesis
      by (simp add: apply_from_pending_keeps)
  qed
qed

text \<open>
  Claim C7, as amended. The two pending conflicts are kept under two keys of the user data
  that do not know of each other: storing a conflict of one kind replaces the one of that
  kind and leaves the other kind as it was, so that both can be held at once. A cancel
  action clears both. A confirm action consumes the create conflict when one is held, and
  then leaves the update conflict as it was; otherwise it consumes the update conflict.
  So after a confirm or cancel action on a conversation that holds at most one of them,
  none is held.
\<close>

theorem pending_conflict_slots:
  "pending_conflict (set_pending_create_conflict ud created) = created
   \<and> pending_update_conflict (set_pending_create_conflict ud created) = pending_update_conflict ud
   \<and> pending_update_conflict (set_pending_update_conflict ud updated) = updated
   \<and> pending_conflict (set_pending_update_conflict ud updated) = pending_conflict ud
   \<and> (\<exists>conv'. handle_callback_query be now tid ConflictCancel conv = Inr conv'
        \<and> pending_conflict (user conv') = None \<and> pending_update_conflict (user conv') = None)
   \<and> (\<exists>conv'. handle_callback_query be now tid ConflictConfirm conv = Inr conv'
        \<and> pending_conflict (user conv') = None
        \<and> (pending_conflict (user conv) = None \<longrightarrow> pending_update_conflict (user conv') = None)
        \<and> (pending_conflict (user conv) \<noteq> None \<longrightarrow>
              pending_update_conflict (user conv') = pending_update_conflict (user conv)))"
proof -
  have s: "pending_conflict (set_pending_create_conflict ud created) = created
   \<and> pending_update_conflict (set_pending_create_conflict ud created) = pending_update_conflict ud
   \<and> pending_update_conflict (set_pending_update_conflict ud updated) = updated
   \<and> pending_conflict (set_pending_update_conflict ud updated) = pending_conflict ud"
    by (simp add: set_pending_create_conflict_def set_pending_update_conflict_def)
  from conflict_confirm_consumes[of be now tid conv]
  have c: "\<exists>conv'. handle_callback_query be now tid ConflictConfirm conv = Inr conv'
        \<and> pending_conflict (user conv') = None
        \<and> (pending_conflict (user conv) = None \<longrightarrow> pending_update_conflict (user conv') = None)
        \<and> (pending_conflict (user conv) \<noteq> None \<longrightarrow>
              pending_update_conflict (user conv') = pending_update_conflict (user conv))"
    by auto
  from s conflict_cancel_clears[of be now tid conv] c show ?thesis by blast
qed

text \<open>
  Both conflicts are held after an update that met a conflict and a creation that met one,
  and the confirm action that follows leaves the update conflict pending.
\<close>

theorem pending_conflict_slots_counterexample:
  "held (handle_create_event full_backend 7 standup_draft (at_day 739000 10 0)
           (at_day 739000 10 30) ''ok''
           (handle_event_update_by_id full_backend (at_day 739000 8 0) 7 ''ev9'' shift_payload
              None new_conversation)) = Inr (True, True)
   \<and> held (then_do
        (handle_create_event full_backend 7 standup_draft (at_day 739000 10 0)
           (at_day 739000 10 30) ''ok''
           (handle_event_update_by_id full_backend (at_day 739000 8 0) 7 ''ev9'' shift_payload
              None new_conversation))
        (handle_callback_query full_backend (at_day 739000 8 0) 7 ConflictConfirm))
       = Inr (False, True)"
  by code_simp

lemma shifted_holds: "held (Inr shifted_conversation) = Inr (False, True)"
  by code_simp

lemma create_holds: "held (Inr create_conversation) = Inr (True, False)"
  by code_simp

theorem pending_conflict_slots_witness:
  "pending_conflict (user shifted_conversation) = None
   \<and> pending_update_conflict (user shifted_conversation) \<noteq> None
   \<and> (\<exists>conv'. handle_callback_query full_backend (at_day 739000 8 0) 7 ConflictConfirm
                 shifted_conversation = Inr conv'
        \<and> pending_conflict (user conv') = None \<and> pending_update_conflict (user conv') = None)
   \<and> pending_conflict (user create_conversation) \<noteq> None
   \<and> (\<exists>conv'. handle_callback_query full_backend (at_day 739000 8 0) 7 ConflictConfirm
                 create_conversation = Inr conv'
        \<and> pending_conflict (user conv') = None
        \<and> pending_update_conflict (user conv') = pending_update_conflict (user create_conversation))"
proof -
  from shifted_holds have a: "pending_conflict (user shifted_conversation) = None"
    "pending_update_conflict (user shifted_conversation) \<noteq> None"
    by (simp_all add: held_def)
  from create_holds have b: "pending_conflict (user create_conversation) \<noteq> None"
    by (simp add: held_def)
  from pending_conflict_slots[where be = full_backend and now = "at_day 739000 8 0" and tid = 7
      and conv = shifted_conversation] a
  have c: "\<exists>conv'. handle_callback_query full_backend (at_day 739000 8 0) 7 ConflictConfirm
                 shifted_conversation = Inr conv'
        \<and> pending_conflict (user conv') = None \<and> pending_update_conflict (user conv') = None"
    by blast
  from pending_conflict_slots[where be = full_backend and now = "at_day 739000 8 0" and tid = 7
      and conv = create_conversation] b
  have d: "\<exists>conv'. handle_callback_query full_backend (at_day 739000 8 0) 7 ConflictConfirm
                 create_conversation = Inr conv'
        \<and> pending_conflict (user conv') = None
        \<and> pending_update_conflict (user conv') = pending_update_conflict (user create_conversation)"
    by blast
  from a b c d show ?thesis by blast
qed

text \<open>
  Selecting an index when the list is gone is answered with "not found", and selecting an
  entry of the update list consumes that list.
\<close>

lemma select_delete_after_cleared:
  assumes "0 \<le> i" "get_pending_delete_list (user conv) = []"
  shows "handle_callback_query be now tid (DeleteIdx i) conv = Inr (say SelectedEventNotFound conv)"
  using assms by (simp add: handle_callback_query_def)

lemma select_update_after_cleared:
  assumes "pending_update_list (user conv) = None"
  shows "handle_callback_query be now tid (UpdateIdx i) conv
           = Inr (say SelectedEventNotFound
                    (conv\<lparr>user := (user conv)\<lparr>pending_update_detail := None\<rparr>\<rparr>))"
  using assms
  by (simp add: handle_callback_query_def get_pending_update_list_def
        pop_pending_update_detail_def)

lemma select_update_consumes:
  assumes "pending_update_list (user conv) = Some ctx" "0 \<le> i" "i < int (length (pul_items ctx))"
  shows "\<exists>conv'. handle_callback_query be now tid (UpdateIdx i) conv = Inr conv'
           \<and> pending_update_list (user conv') = None"
  using assms
  by (simp add: handle_callback_query_def get_pending_update_list_def py_index_def
        pop_pending_update_detail_def pop_pending_update_list_def Let_def)

text \<open>
  Claim C8. A second press of the same index is to be answered as a lost state, with no
  second action. The update list behaves so; the delete list is not consumed by a
  selection nor by the confirmed deletion, so that selecting its first entry again after
  the deletion asks for confirmation again and deletes the same event a second time.
\<close>

theorem delete_selected_twice:
  "seen (run_callbacks full_backend (at_day 739000 8 0) 7
           [DeleteIdx 0, ConfirmDelete, DeleteIdx 0, ConfirmDelete] delete_conversation)
     = Inr ([ConfirmDeletePrompt ''review'' ''10:15'', EventDeleted ''review'',
             ConfirmDeletePrompt ''review'' ''10:15'', EventDeleted ''review''],
            [DeleteEvent 7 ''ev1'', DeleteEvent 7 ''ev1''])"
  by code_simp

subsection \<open>Later free slots\<close>

lemma find_slots_trace:
  assumes "find_slots be request m trace = (r, trace')"
  shows "trace' = trace @ [ListEventsBetween (telegram_id request) (date_from request)
                             (date_to request) 250]"
proof -
  let ?c = "ListEventsBetween (telegram_id request) (date_from request) (date_to request) 250"
  have "snd (fetch_busy_intervals be (telegram_id request) (date_from request) (date_to request) trace)
          = trace @ [?c]"
    by (cases "be trace ?c") (simp_all add: fetch_busy_intervals_def call_def)
  with assms show ?thesis
    by (auto simp: find_slots_def Let_def split: prod.splits sum.splits)
qed

lemma handle_free_slots_state:
  assumes "find_slots be \<lparr>telegram_id = tid, duration_minutes = duration,
                           date_from = lower, date_to = upper,
                           preferred_start = ps, preferred_end = pe\<rparr> 3 (calls conv)
             = (Inr slots, calls1)"
      and "slots \<noteq> []"
  shows "\<exists>conv1. handle_free_slots be tid duration lower upper window ps pe conv = Inr conv1
           \<and> calls conv1 = calls1
           \<and> replies conv1 = replies conv @ [SlotList slots]
           \<and> last_free_slots (user conv1) =
               Some \<lparr>lfs_slots = slots,
                     lfs_request =
                       \<lparr>lfs_duration = duration,
                        lfs_date_from = Some (Iso lower), lfs_date_to = Some (Iso upper),
                        lfs_preferred_window = window,
                        lfs_preferred_start = ps, lfs_preferred_end = pe,
                        lfs_next_start = Some (Iso (slot_end (last slots) + timedelta_minutes 15)),
                        lfs_cursor_history = [Some (Iso lower)]\<rparr>,
                     awaiting_use = True\<rparr>"
  using assms
  by (simp add: handle_free_slots_def Let_def set_last_free_slots_def)

lemma next_range_later:
  assumes "lfs_request info =
             \<lparr>lfs_duration = duration,
              lfs_date_from = Some (Iso lower), lfs_date_to = Some (Iso upper),
              lfs_preferred_window = window,
              lfs_preferred_start = ps, lfs_preferred_end = pe,
              lfs_next_start = Some (Iso next), lfs_cursor_history = [Some (Iso lower)]\<rparr>"
  shows "next_range now Later info =
           (if next \<ge> upper then None
            else Some (next, upper, [Some (Iso lower), Some (Iso next)]))"
  using assms by (simp add: next_range_def parse_iso_datetime_def Let_def)

lemma more_later_run:
  assumes i: "last_free_slots (user conv1) = Some info"
      and r: "lfs_request info =
             \<lparr>lfs_duration = duration,
              lfs_date_from = Some (Iso lower), lfs_date_to = Some (Iso upper),
              lfs_preferred_window = window,
              lfs_preferred_start = ps, lfs_preferred_end = pe,
              lfs_next_start = Some (Iso next), lfs_cursor_history = [Some (Iso lower)]\<rparr>"
      and d: "duration \<noteq> 0" and lt: "next < upper"
  shows "handle_more_free_slots be now tid Later conv1 =
     (case find_slots be \<lparr>telegram_id = tid, duration_minutes = duration,
                           date_from = next, date_to = upper,
                           preferred_start = ps, preferred_end = pe\<rparr> 3 (calls conv1) of
        (Inl err, calls2) \<Rightarrow> Inl err
      | (Inr [], calls2) \<Rightarrow>
          Inr (say NoOtherVariants
                 (conv1\<lparr>user := set_last_free_slots (user conv1)
                           (Some \<lparr>lfs_slots = lfs_slots info,
                                  lfs_request = (lfs_request info)\<lparr>lfs_next_start := Some (Iso upper)\<rparr>,
                                  awaiting_use = awaiting_use info\<rparr>),
                        calls := calls2\<rparr>))
      | (Inr page, calls2) \<Rightarrow>
          Inr (say (SlotList page)
                 (conv1\<lparr>user := set_last_free_slots (user conv1)
                           (Some \<lparr>lfs_slots = page,
                                  lfs_request =
                                    \<lparr>lfs_duration = duration,
                                     lfs_date_from = Some (Iso lower), lfs_date_to = Some (Iso upper),
                                     lfs_preferred_window = window,
                                     lfs_preferred_start = ps, lfs_preferred_end = pe,
                                     lfs_next_start =
                                       Some (Iso (slot_end (last page) + timedelta_minutes 15)),
                                     lfs_cursor_history = [Some (Iso lower), Some (Iso next)]\<rparr>,
                                  awaiting_use = (page \<noteq> [])\<rparr>),
                        calls := calls2\<rparr>)))"
proof -
  from lt have n: "next_range now Later info = Some (next, upper, [Some (Iso lower), Some (Iso next)])"
    by (simp add: next_range_later[OF r])
  show ?thesis
    unfolding handle_more_free_slots_def get_last_free_slots_def i
    using d
    by (simp add: n r Let_def split: prod.splits sum.splits list.splits)
qed

lemma more_later_stop:
  assumes i: "last_free_slots (user conv1) = Some info"
      and r: "lfs_request info =
             \<lparr>lfs_duration = duration,
              lfs_date_from = Some (Iso lower), lfs_date_to = Some (Iso upper),
              lfs_preferred_window = window,
              lfs_preferred_start = ps, lfs_preferred_end = pe,
              lfs_next_start = Some (Iso next), lfs_cursor_history = [Some (Iso lower)]\<rparr>"
      and d: "duration \<noteq> 0" and ge: "upper \<le> next"
  shows "handle_more_free_slots be now tid Later conv1 = Inr (say NoMoreSlots conv1)"
proof -
  from ge have n: "next_range now Later info = None"
    by (simp add: next_range_later[OF r])
  show ?thesis
    unfolding handle_more_free_slots_def get_last_free_slots_def i
    using d by (simp add: n r Let_def)
qed

text \<open>
  Claim C6, as amended. After a search whose last returned slot ends at \<open>T\<close>, a request
  for later slots runs the search again from \<open>T\<close> plus 15 minutes to the upper bound of
  the first search, provided that \<open>T\<close> plus 15 minutes is before that bound; otherwise no
  search is run and the user is told that no other slot is left. When the new search
  returns a slot, its lower bound is pushed onto the cursor history; when it returns
  none, the history and the slots shown are left as they were.
\<close>

theorem later_search:
  assumes "find_slots be \<lparr>telegram_id = tid, duration_minutes = duration,
                           date_from = lower, date_to = upper,
                           preferred_start = ps, preferred_end = pe\<rparr> 3 (calls conv)
             = (Inr slots, calls1)"
      and "slots \<noteq> []" and "duration \<noteq> 0"
      and "handle_free_slots be tid duration lower upper window ps pe conv = Inr conv1"
  shows "(slot_end (last slots) + timedelta_minutes 15 < upper \<longrightarrow>
            (\<forall>err calls2.
               find_slots be \<lparr>telegram_id = tid, duration_minutes = duration,
                               date_from = slot_end (last slots) + timedelta_minutes 15,
                               date_to = upper,
                               preferred_start = ps, preferred_end = pe\<rparr> 3 calls1
                 = (Inl err, calls2) \<longrightarrow>
               handle_more_free_slots be now tid Later conv1 = Inl err)
          \<and> (\<forall>page calls2.
               find_slots be \<lparr>telegram_id = tid, duration_minutes = duration,
                               date_from = slot_end (last slots) + timedelta_minutes 15,
                               date_to = upper,
                               preferred_start = ps, preferred_end = pe\<rparr> 3 calls1
                 = (Inr page, calls2) \<longrightarrow>
               (\<exists>conv2 info2.
                  handle_more_free_slots be now tid Later conv1 = Inr conv2
                  \<and> calls conv2 = calls1 @ [ListEventsBetween tid
                        (slot_end (last slots) + timedelta_minutes 15) upper 250]
                  \<and> last_free_slots (user conv2) = Some info2
                  \<and> lfs_date_to (lfs_request info2) = Some (Iso upper)
                  \<and> (page \<noteq> [] \<longrightarrow>
                        lfs_slots info2 = page
                        \<and> lfs_cursor_history (lfs_request info2)
                            = [Some (Iso lower),
                               Some (Iso (slot_end (last slots) + timedelta_minutes 15))])
                  \<and> (page = [] \<longrightarrow>
                        lfs_slots info2 = slots
                        \<and> lfs_cursor_history (lfs_request info2) = [Some (Iso lower)]))))
       \<and> (upper \<le> slot_end (last slots) + timedelta_minutes 15 \<longrightarrow>
            handle_more_free_slots be now tid Later conv1 = Inr (say NoMoreSlots conv1))"
proof -
  let ?next = "slot_end (last slots) + timedelta_minutes 15"
  let ?info = "\<lparr>lfs_slots = slots,
                     lfs_request =
                       \<lparr>lfs_duration = duration,
                        lfs_date_from = Some (Iso lower), lfs_date_to = Some (Iso upper),
                        lfs_preferred_window = window,
                        lfs_preferred_start = ps, lfs_preferred_end = pe,
                        lfs_next_start = Some (Iso ?next),
                        lfs_cursor_history = [Some (Iso lower)]\<rparr>,
                     awaiting_use = True\<rparr>"
  from handle_free_slots_state[OF assms(1,2), of window] assms(4)
  have c: "calls conv1 = calls1" and i: "last_free_slots (user conv1) = Some ?info"
    by auto
  have r: "lfs_request ?info = \<lparr>lfs_duration = duration,
                        lfs_date_from = Some (Iso lower), lfs_date_to = Some (Iso upper),
                        lfs_preferred_window = window,
                        lfs_preferred_start = ps, lfs_preferred_end = pe,
                        lfs_next_start = Some (Iso ?next),
                        lfs_cursor_history = [Some (Iso lower)]\<rparr>"
    by simp
  show ?thesis
  proof (intro conjI impI allI)
    fix err calls2
    assume lt: "?next < upper"
      and f: "find_slots be \<lparr>telegram_id = tid, duration_minutes = duration,
                               date_from = ?next, date_to = upper,
                               preferred_start = ps, preferred_end = pe\<rparr> 3 calls1
                 = (Inl err, calls2)"
    show "handle_more_free_slots be now tid Later conv1 = Inl err"
      unfolding more_later_run[OF i r assms(3) lt] c f by simp
  next
    fix page calls2
    assume lt: "?next < upper"
      and f: "find_slots be \<lparr>telegram_id = tid, duration_minutes = duration,
                               date_from = ?next, date_to = upper,
                               preferred_start = ps, preferred_end = pe\<rparr> 3 calls1
                 = (Inr page, calls2)"
    from find_slots_trace[OF f] have t: "calls2 = calls1 @ [ListEventsBetween tid ?next upper 250]"
      by simp
    show "\<exists>conv2 info2.
                  handle_more_free_slots be now tid Later conv1 = Inr conv2
                  \<and> calls conv2 = calls1 @ [ListEventsBetween tid ?next upper 250]
                  \<and> last_free_slots (user conv2) = Some info2
                  \<and> lfs_date_to (lfs_request info2) = Some (Iso upper)
                  \<and> (page \<noteq> [] \<longrightarrow>
                        lfs_slots info2 = page
                        \<and> lfs_cursor_history (lfs_request info2)
                            = [Some (Iso lower), Some (Iso ?next)])
                  \<and> (page = [] \<longrightarrow>
                        lfs_slots info2 = slots
                        \<and> lfs_cursor_history (lfs_request info2) = [Some (Iso lower)])"
      unfolding more_later_run[OF i r assms(3) lt] c f
      by (cases page) (simp_all add: t set_last_free_slots_def)
  next
    assume "upper \<le> ?next"
    then show "handle_more_free_slots be now tid Later conv1 = Inr (say NoMoreSlots conv1)"
      by (rule more_later_stop[OF i r assms(3)])
  qed
qed

text \<open>
  A first search up to 10:05 returns the slot from 9:00 to 10:00; the request for later
  slots is then answered without a second search, since 10:15 is not before 10:05.
\<close>

theorem later_search_counterexample:
  "seen (handle_free_slots example_backend 7 60 (at_day 739000 9 0) (at_day 739000 10 5)
           None None None new_conversation)
     = Inr ([SlotList [\<lparr>slot_start = at_day 739000 9 0, slot_end = at_day 739000 10 0\<rparr>]],
            [ListEventsBetween 7 (at_day 739000 9 0) (at_day 739000 10 5) 250])
   \<and> seen (then_do
        (handle_free_slots example_backend 7 60 (at_day 739000 9 0) (at_day 739000 10 5)
           None None None new_conversation)
        (handle_more_free_slots example_backend (at_day 739000 8 0) 7 Later))
     = Inr ([SlotList [\<lparr>slot_start = at_day 739000 9 0, slot_end = at_day 739000 10 0\<rparr>],
             NoMoreSlots],
            [ListEventsBetween 7 (at_day 739000 9 0) (at_day 739000 10 5) 250])"
  by code_simp

lemma first_search:
  "find_slots example_backend
     \<lparr>telegram_id = 7, duration_minutes = 60,
      date_from = at_day 739000 13 0, date_to = at_day 739002 0 0,
      preferred_start = Some 13, preferred_end = Some 20\<rparr> 3 (calls new_conversation)
   = (Inr [\<lparr>slot_start = at_day 739000 13 0, slot_end = at_day 739000 14 0\<rparr>,
           \<lparr>slot_start = at_day 739001 13 0, slot_end = at_day 739001 14 0\<rparr>],
      [ListEventsBetween 7 (at_day 739000 13 0) (at_day 739002 0 0) 250])"
  by code_simp

lemma first_handled:
  "handle_free_slots example_backend 7 60 (at_day 739000 13 0) (at_day 739002 0 0)
     None (Some 13) (Some 20) new_conversation = Inr searched_conversation"
  by code_simp

lemma second_search:
  "find_slots example_backend
     \<lparr>telegram_id = 7, duration_minutes = 60,
      date_from = slot_end (last [\<lparr>slot_start = at_day 739000 13 0, slot_end = at_day 739000 14 0\<rparr>,
           \<lparr>slot_start = at_day 739001 13 0, slot_end = at_day 739001 14 0\<rparr>])
             + timedelta_minutes 15,
      date_to = at_day 739002 0 0,
      preferred_start = Some 13, preferred_end = Some 20\<rparr> 3
     [ListEventsBetween 7 (at_day 739000 13 0) (at_day 739002 0 0) 250]
   = (Inr [\<lparr>slot_start = at_day 739001 14 15, slot_end = at_day 739001 15 15\<rparr>],
      [ListEventsBetween 7 (at_day 739000 13 0) (at_day 739002 0 0) 250,
       ListEventsBetween 7 (at_day 739001 14 15) (at_day 739002 0 0) 250])"
  by code_simp

theorem later_search_witness:
  "slot_end (last [\<lparr>slot_start = at_day 739000 13 0, slot_end = at_day 739000 14 0\<rparr>,
                   \<lparr>slot_start = at_day 739001 13 0, slot_end = at_day 739001 14 0\<rparr>])
     = at_day 739001 14 0
   \<and> at_day 739001 14 0 + timedelta_minutes 15 = at_day 739001 14 15
   \<and> at_day 739001 14 15 < at_day 739002 0 0
   \<and> (60 :: int) \<noteq> 0
   \<and> handle_free_slots example_backend 7 60 (at_day 739000 13 0) (at_day 739002 0 0)
        None (Some 13) (Some 20) new_conversation = Inr searched_conversation
   \<and> (\<exists>conv2 info2.
         handle_more_free_slots example_backend (at_day 739000 8 0) 7 Later searched_conversation
           = Inr conv2
         \<and> calls conv2 = [ListEventsBetween 7 (at_day 739000 13 0) (at_day 739002 0 0) 250,
                           ListEventsBetween 7 (at_day 739001 14 15) (at_day 739002 0 0) 250]
         \<and> last_free_slots (user conv2) = Some info2
         \<and> lfs_date_to (lfs_request info2) = Some (Iso (at_day 739002 0 0))
         \<and> lfs_slots info2 = [\<lparr>slot_start = at_day 739001 14 15, slot_end = at_day 739001 15 15\<rparr>]
         \<and> lfs_cursor_history (lfs_request info2)
             = [Some (Iso (at_day 739000 13 0)), Some (Iso (at_day 739001 14 15))])"
proof -
  have e: "slot_end (last [\<lparr>slot_start = at_day 739000 13 0, slot_end = at_day 739000 14 0\<rparr>,
                   \<lparr>slot_start = at_day 739001 13 0, slot_end = at_day 739001 14 0\<rparr>])
     = at_day 739001 14 0" by simp
  have n: "at_day 739001 14 0 + timedelta_minutes 15 = at_day 739001 14 15"
    by (simp add: time_defs)
  have lt: "at_day 739001 14 15 < at_day 739002 0 0" by (simp add: time_defs)
  have ne: "[\<lparr>slot_start = at_day 739000 13 0, slot_end = at_day 739000 14 0\<rparr>,
             \<lparr>slot_start = at_day 739001 13 0, slot_end = at_day 739001 14 0\<rparr>] \<noteq> []" by simp
  have d: "(60 :: int) \<noteq> 0" by simp
  note t = later_search[OF first_search ne d first_handled, of "at_day 739000 8 0",
             THEN conjunct1, rule_format, THEN conjunct2, rule_format, OF _ second_search]
  have lt': "slot_end (last [\<lparr>slot_start = at_day 739000 13 0, slot_end = at_day 739000 14 0\<rparr>,
                   \<lparr>slot_start = at_day 739001 13 0, slot_end = at_day 739001 14 0\<rparr>])
                + timedelta_minutes 15 < at_day 739002 0 0"
    using lt by (simp add: n)
  from t[OF lt'] have "\<exists>conv2 info2.
         handle_more_free_slots example_backend (at_day 739000 8 0) 7 Later searched_conversation
           = Inr conv2
         \<and> calls conv2 = [ListEventsBetween 7 (at_day 739000 13 0) (at_day 739002 0 0) 250,
                           ListEventsBetween 7 (at_day 739001 14 15) (at_day 739002 0 0) 250]
         \<and> last_free_slots (user conv2) = Some info2
         \<and> lfs_date_to (lfs_request info2) = Some (Iso (at_day 739002 0 0))
         \<and> lfs_slots info2 = [\<lparr>slot_start = at_day 739001 14 15, slot_end = at_day 739001 15 15\<rparr>]
         \<and> lfs_cursor_history (lfs_request info2)
             = [Some (Iso (at_day 739000 13 0)), Some (Iso (at_day 739001 14 15))]"
    by (simp add: n)
  with e n lt d first_handled show ?thesis by blast
qed

end
